theory Spec2Isabelle
  imports Complex_Main "HOL-Library.Sublist"
begin

section \<open>JavaScript values and strings\<close>

text \<open>
  The service is TypeScript running on a JavaScript engine. A merged provider record is a
  \<^verbatim>\<open>Record<string, unknown>\<close>: a finite map from property names to JavaScript values.
  Strings are modelled as byte sequences (the UTF-8 form of the source text); every pattern
  the code searches for is ASCII, so substring tests, prefix tests and equality agree with
  the engine's UTF-16 strings. \<open>toUpperCase\<close>, \<open>toLowerCase\<close> and \<open>trim\<close> below are the
  engine's functions on ASCII text; where a property depends on what the engine does outside
  ASCII (\<^verbatim>\<open>toLowerCase\<close> in the key classification, \<^verbatim>\<open>parseInt\<close>, \<^verbatim>\<open>localeCompare\<close>), the
  engine's function is a parameter of the model.
\<close>

datatype jsval = JUndefined | JNull | JBool bool | JNum rat | JStr string | JObject

text \<open>
  The numbers that \<^verbatim>\<open>parseInt\<close> and a comparator can return: \<^verbatim>\<open>NaN\<close>, an integer, or an
  infinity (a digit string beyond the range of a double).
\<close>

datatype js_number = NaN | Finite int | PlusInfinity | MinusInfinity

text \<open>JavaScript truthiness (\<^verbatim>\<open>!!v\<close>).\<close>

fun truthy :: "jsval \<Rightarrow> bool" where
  "truthy JUndefined = False"
| "truthy JNull = False"
| "truthy (JBool b) = b"
| "truthy (JNum r) = (r \<noteq> 0)"
| "truthy (JStr s) = (s \<noteq> [])"
| "truthy JObject = True"

type_synonym jsrecord = "string \<rightharpoonup> jsval"

text \<open>Property read \<^verbatim>\<open>m.k\<close>: an absent own property reads as \<^verbatim>\<open>undefined\<close>.\<close>

definition jsget :: "jsrecord \<Rightarrow> string \<Rightarrow> jsval" where
  "jsget m k = (case m k of None \<Rightarrow> JUndefined | Some v \<Rightarrow> v)"

text \<open>\<^verbatim>\<open>a || b\<close> on values.\<close>

definition js_or :: "jsval \<Rightarrow> jsval \<Rightarrow> jsval" where
  "js_or a b = (if truthy a then a else b)"

definition lower_letters :: string where
  "lower_letters = ''abcdefghijklmnopqrstuvwxyz''"

definition upper_letters :: string where
  "upper_letters = ''ABCDEFGHIJKLMNOPQRSTUVWXYZ''"

definition upper_char :: "char \<Rightarrow> char" where
  "upper_char c = (case map_of (zip lower_letters upper_letters) c of Some u \<Rightarrow> u | None \<Rightarrow> c)"

definition lower_char :: "char \<Rightarrow> char" where
  "lower_char c = (case map_of (zip upper_letters lower_letters) c of Some l \<Rightarrow> l | None \<Rightarrow> c)"

definition toUpperCase :: "string \<Rightarrow> string" where
  "toUpperCase s = map upper_char s"

definition toLowerCase :: "string \<Rightarrow> string" where
  "toLowerCase s = map lower_char s"

text \<open>White space removed by \<^verbatim>\<open>String.prototype.trim\<close>: tab, LF, VT, FF, CR, space.\<close>

definition is_space :: "char \<Rightarrow> bool" where
  "is_space c = (c \<in> set [CHR 0x09, CHR 0x0A, CHR 0x0B, CHR 0x0C, CHR 0x0D, CHR '' ''])"

definition trim :: "string \<Rightarrow> string" where
  "trim s = rev (dropWhile is_space (rev (dropWhile is_space s)))"

text \<open>\<^verbatim>\<open>s.startsWith(p)\<close> and \<^verbatim>\<open>s.includes(p)\<close>, by scanning.\<close>

fun startsWith :: "string \<Rightarrow> string \<Rightarrow> bool" where
  "startsWith s [] = True"
| "startsWith [] (p # ps) = False"
| "startsWith (c # s) (p # ps) = (c = p \<and> startsWith s ps)"

fun includes_str :: "string \<Rightarrow> string \<Rightarrow> bool" where
  "includes_str [] p = (p = [])"
| "includes_str (c # s) p = (startsWith (c # s) p \<or> includes_str s p)"


section \<open>IP type recognition (core/ipType.ts)\<close>

record type_patterns =
  pat_includes :: "string list"
  pat_exact :: "string list"

text \<open>\<^verbatim>\<open>IP_TYPE_PATTERNS\<close>, in the insertion order \<^verbatim>\<open>Object.entries\<close> walks.\<close>

definition IP_TYPE_PATTERNS :: "(string \<times> type_patterns) list" where
  "IP_TYPE_PATTERNS =
    [(''residential'', \<lparr>pat_includes = [''RESIDENTIAL'', ''FIXED LINE'', ''FIXED LINE ISP'', ''CONSUMER''],
                        pat_exact = [''ISP'']\<rparr>),
     (''mobile'', \<lparr>pat_includes = [''MOBILE'', ''CELLULAR'', ''WIRELESS''], pat_exact = [''MOB'']\<rparr>),
     (''datacenter'', \<lparr>pat_includes = [''DATA CENTER'', ''HOSTING'', ''TRANSIT'', ''DATACENTER'',
                                        ''SERVER'', ''WEB HOSTING'', ''CONTENT''],
                       pat_exact = [''DCH'']\<rparr>),
     (''commercial'', \<lparr>pat_includes = [''CORPORATE'', ''COMMERCIAL'', ''BUSINESS'', ''ENTERPRISE'',
                                        ''ORGANIZATION''],
                       pat_exact = [''COM'']\<rparr>),
     (''education'', \<lparr>pat_includes = [''EDUCATION'', ''UNIVERSITY'', ''SCHOOL'', ''ACADEMIC'', ''LIBRARY''],
                      pat_exact = [''EDU'']\<rparr>),
     (''government'', \<lparr>pat_includes = [''GOVERNMENT'', ''MILITARY''], pat_exact = [''GOV'', ''MIL'']\<rparr>),
     (''library'', \<lparr>pat_includes = [''LIBRARY''], pat_exact = [''LIB'']\<rparr>)]"

definition display_unknown :: string where
  "display_unknown = [CHR 0xE6, CHR 0x9C, CHR 0xAA, CHR 0xE7, CHR 0x9F, CHR 0xA5] @ '' (Unknown)''"

text \<open>\<^verbatim>\<open>IP_TYPE_DISPLAY\<close>; the labels are the UTF-8 bytes of the source literals.\<close>

definition IP_TYPE_DISPLAY :: "(string \<times> string) list" where
  "IP_TYPE_DISPLAY =
    [(''residential'', [CHR 0xE4, CHR 0xBD, CHR 0x8F, CHR 0xE5, CHR 0xAE, CHR 0x85] @ '' IP (Residential)''),
     (''mobile'', [CHR 0xE7, CHR 0xA7, CHR 0xBB, CHR 0xE5, CHR 0x8A, CHR 0xA8] @ '' IP (Mobile)''),
     (''datacenter'', [CHR 0xE6, CHR 0x95, CHR 0xB0, CHR 0xE6, CHR 0x8D, CHR 0xAE, CHR 0xE4, CHR 0xB8,
                       CHR 0xAD, CHR 0xE5, CHR 0xBF, CHR 0x83] @ '' IP (Data Center)''),
     (''commercial'', [CHR 0xE5, CHR 0x95, CHR 0x86, CHR 0xE4, CHR 0xB8, CHR 0x9A] @ '' IP (Commercial)''),
     (''education'', [CHR 0xE6, CHR 0x95, CHR 0x99, CHR 0xE8, CHR 0x82, CHR 0xB2] @ '' IP (Education)''),
     (''government'', [CHR 0xE6, CHR 0x94, CHR 0xBF, CHR 0xE5, CHR 0xBA, CHR 0x9C] @ ''/'' @
                       [CHR 0xE5, CHR 0x86, CHR 0x9B, CHR 0xE4, CHR 0xBA, CHR 0x8B] @ '' IP (Government)''),
     (''library'', [CHR 0xE5, CHR 0x9B, CHR 0xBE, CHR 0xE4, CHR 0xB9, CHR 0xA6, CHR 0xE9, CHR 0xA6,
                    CHR 0x86] @ '' IP (Library)''),
     (''unknown'', display_unknown)]"

definition matchesTypePattern :: "string \<Rightarrow> type_patterns \<Rightarrow> bool" where
  "matchesTypePattern typeUpper patterns =
     (if List.member (pat_exact patterns) typeUpper then True
      else list_ex (\<lambda>p. includes_str typeUpper p) (pat_includes patterns))"

text \<open>The \<^verbatim>\<open>for ... of Object.entries(IP_TYPE_PATTERNS)\<close> loop of \<^verbatim>\<open>normalizeIpType\<close>.\<close>

fun normalize_loop :: "string \<Rightarrow> (string \<times> type_patterns) list \<Rightarrow> string" where
  "normalize_loop typeUpper [] = ''unknown''"
| "normalize_loop typeUpper ((ty, patterns) # rest) =
     (if matchesTypePattern typeUpper patterns
      then (if ty = ''library'' then ''education'' else ty)
      else normalize_loop typeUpper rest)"

definition normalizeIpType :: "jsval \<Rightarrow> string" where
  "normalizeIpType rawType =
     (case rawType of
        JStr s \<Rightarrow> if s = [] then ''unknown'' else normalize_loop (trim (toUpperCase s)) IP_TYPE_PATTERNS
      | _ \<Rightarrow> ''unknown'')"

text \<open>The pattern loop of \<^verbatim>\<open>getDisplayType\<close>: \<^verbatim>\<open>IP_TYPE_DISPLAY[type] || IP_TYPE_DISPLAY.unknown\<close>.\<close>

fun display_loop :: "string \<Rightarrow> (string \<times> type_patterns) list \<Rightarrow> string option" where
  "display_loop typeUpper [] = None"
| "display_loop typeUpper ((ty, patterns) # rest) =
     (if matchesTypePattern typeUpper patterns
      then (case map_of IP_TYPE_DISPLAY ty of
              Some d \<Rightarrow> Some (if d = [] then display_unknown else d)
            | None \<Rightarrow> Some display_unknown)
      else display_loop typeUpper rest)"

definition other_suffix :: string where
  "other_suffix = '' ('' @ [CHR 0xE5, CHR 0x85, CHR 0xB6, CHR 0xE4, CHR 0xBB, CHR 0x96] @ '')''"

definition getDisplayType :: "string \<Rightarrow> string" where
  "getDisplayType ipType =
     (if ipType = [] then display_unknown
      else let typeLower = toLowerCase ipType; typeUpper = trim (toUpperCase ipType) in
        (case map_of IP_TYPE_DISPLAY typeLower of
           Some d \<Rightarrow> d
         | None \<Rightarrow>
            (case display_loop typeUpper IP_TYPE_PATTERNS of
               Some d \<Rightarrow> d
             | None \<Rightarrow> if typeUpper = ''UNKNOWN'' then display_unknown else ipType @ other_suffix)))"

record TypeSourceDetail =
  source :: string
  rawType :: string
  normalizedType :: string

text \<open>
  \<^verbatim>\<open>extractTypeSourceDetails\<close>: four guarded pushes, in source order. The IPQS entry is
  pushed only for a non-empty string that does not contain \<^verbatim>\<open>Premium\<close>.
\<close>

definition ipqs_detail :: "jsrecord \<Rightarrow> TypeSourceDetail list" where
  "ipqs_detail merged =
     (case jsget merged ''connection_type'' of
        JStr s \<Rightarrow> if s \<noteq> [] \<and> \<not> includes_str s ''Premium''
                  then [\<lparr>source = ''IPQS'', rawType = s, normalizedType = normalizeIpType (JStr s)\<rparr>]
                  else []
      | _ \<Rightarrow> [])"

definition abuseipdb_detail :: "jsrecord \<Rightarrow> TypeSourceDetail list" where
  "abuseipdb_detail merged =
     (case jsget merged ''usageType'' of
        JStr s \<Rightarrow> if s \<noteq> []
                  then [\<lparr>source = ''AbuseIPDB'', rawType = s, normalizedType = normalizeIpType (JStr s)\<rparr>]
                  else []
      | _ \<Rightarrow> [])"

definition ip2location_detail :: "jsrecord \<Rightarrow> TypeSourceDetail list" where
  "ip2location_detail merged =
     (case jsget merged ''ip2location_usage'' of
        JStr s \<Rightarrow> if s \<noteq> []
                  then [\<lparr>source = ''IP2Location'', rawType = s, normalizedType = normalizeIpType (JStr s)\<rparr>]
                  else []
      | _ \<Rightarrow> [])"

definition ipinfo_hosting_detail :: "jsrecord \<Rightarrow> TypeSourceDetail list" where
  "ipinfo_hosting_detail merged =
     (if jsget merged ''ipinfo_hosting'' = JBool True
      then [\<lparr>source = ''IPInfo Hosting'', rawType = ''Hosting/Data Center'', normalizedType = ''datacenter''\<rparr>]
      else [])"

definition extractTypeSourceDetails :: "jsrecord \<Rightarrow> TypeSourceDetail list" where
  "extractTypeSourceDetails merged =
     ipqs_detail merged @ abuseipdb_detail merged @ ip2location_detail merged @ ipinfo_hosting_detail merged"

text \<open>
  \<^verbatim>\<open>voteIpType\<close>. The tally object \<^verbatim>\<open>typeVotes\<close> is an association list in insertion
  order, which is the order \<^verbatim>\<open>Object.entries\<close> walks for these keys.
  \<^verbatim>\<open>typeVotes[t] = (typeVotes[t] || 0) + 1\<close> is \<open>bump_vote\<close>.
\<close>

fun bump_vote :: "string \<Rightarrow> (string \<times> nat) list \<Rightarrow> (string \<times> nat) list" where
  "bump_vote t [] = [(t, 1)]"
| "bump_vote t ((k, n) # kvs) = (if k = t then (k, n + 1) # kvs else (k, n) # bump_vote t kvs)"

fun tally_votes :: "TypeSourceDetail list \<Rightarrow> (string \<times> nat) list \<Rightarrow> (string \<times> nat) list" where
  "tally_votes [] typeVotes = typeVotes"
| "tally_votes (item # items) typeVotes =
     (let t = normalizedType item in
      if t \<noteq> [] \<and> t \<noteq> ''unknown'' then tally_votes items (bump_vote t typeVotes)
      else tally_votes items typeVotes)"

text \<open>The maximum loop: a strictly larger count replaces the current winner.\<close>

fun max_votes :: "(string \<times> nat) list \<Rightarrow> string \<times> nat \<Rightarrow> string \<times> nat" where
  "max_votes [] best = best"
| "max_votes ((ty, votes) # rest) (ipTypeNormalized, maxVotes) =
     (if votes > maxVotes then max_votes rest (ty, votes)
      else max_votes rest (ipTypeNormalized, maxVotes))"

definition voteIpType :: "TypeSourceDetail list \<Rightarrow> string" where
  "voteIpType typeSourceDetails =
     (let ipTypeNormalized = fst (max_votes (tally_votes typeSourceDetails []) (''unknown'', 0)) in
      if ipTypeNormalized = ''unknown'' \<and> length typeSourceDetails = 0 then ''unknown''
      else ipTypeNormalized)"

definition isHostingIp :: "jsrecord \<Rightarrow> string \<Rightarrow> bool" where
  "isHostingIp merged ipTypeNormalized =
     (ipTypeNormalized = ''datacenter'' \<or>
      jsget merged ''ipinfo_hosting'' = JBool True \<or>
      normalizeIpType (jsget merged ''connection_type'') = ''datacenter'' \<or>
      normalizeIpType (jsget merged ''usageType'') = ''datacenter'' \<or>
      normalizeIpType (jsget merged ''ip2location_usage'') = ''datacenter'')"

text \<open>
  The \<^verbatim>\<open>summary.ipType\<close> object that \<^verbatim>\<open>buildDetailResult\<close> assembles for
  \<^verbatim>\<open>buildIpCheckResult\<close> and \<^verbatim>\<open>mergeExitData\<close>: \<^verbatim>\<open>value\<close> is the display label,
  \<^verbatim>\<open>raw\<close> the vote winner, \<^verbatim>\<open>sources\<close> the extracted details.
\<close>

record IpTypeSummary =
  ipt_value :: string
  ipt_raw :: string
  ipt_sources :: "TypeSourceDetail list"

definition summary_ipType :: "jsrecord \<Rightarrow> IpTypeSummary" where
  "summary_ipType merged =
     (let typeSourceDetails = extractTypeSourceDetails merged;
          ipTypeNormalized = voteIpType typeSourceDetails;
          displayType = getDisplayType ipTypeNormalized
      in \<lparr>ipt_value = displayType, ipt_raw = ipTypeNormalized, ipt_sources = typeSourceDetails\<rparr>)"

text \<open>The categories \<^verbatim>\<open>normalizeIpType\<close> can return, and two tests on property values used below.\<close>

definition normalized_types :: "string set" where
  "normalized_types = {''residential'', ''mobile'', ''datacenter'', ''commercial'', ''education'', ''government'', ''unknown''}"

definition nonempty_string :: "jsval \<Rightarrow> bool" where
  "nonempty_string v = (case v of JStr s \<Rightarrow> s \<noteq> [] | _ \<Rightarrow> False)"

definition contains_premium :: "jsval \<Rightarrow> bool" where
  "contains_premium v = (case v of JStr s \<Rightarrow> includes_str s ''Premium'' | _ \<Rightarrow> False)"


section \<open>Sample merged records\<close>

text \<open>A record whose only type string, AbuseIPDB's \<^verbatim>\<open>Reserved\<close>, matches no pattern.\<close>

definition reserved_record :: jsrecord where
  "reserved_record = [''usageType'' \<mapsto> JStr ''Reserved'']"

text \<open>The residential record of the second boundary scenario: registry DE, geolocation US.\<close>

definition residential_record :: jsrecord where
  "residential_record = [''ipguide_asn_country'' \<mapsto> JStr ''DE'', ''ip2location_country_code'' \<mapsto> JStr ''US'',
     ''connection_type'' \<mapsto> JStr ''Residential'', ''ip2location_usage'' \<mapsto> JStr ''ISP'',
     ''usageType'' \<mapsto> JStr ''Residential'']"

text \<open>IPQS withholds the connection type on free plans and answers \<^verbatim>\<open>Premium required.\<close>\<close>

definition premium_record :: jsrecord where
  "premium_record = [''connection_type'' \<mapsto> JStr ''Premium required.'',
     ''usageType'' \<mapsto> JStr ''Data Center/Web Hosting/Transit'', ''ipinfo_hosting'' \<mapsto> JBool True]"


section \<open>Native or broadcast: the IP source judgment (core/batchCheck.ts, api/client.ts)\<close>

text \<open>A JavaScript exception, as a value: a \<^verbatim>\<open>TypeError\<close> of the engine, or a thrown \<^verbatim>\<open>Error\<close> with its message.\<close>

datatype js_error = TypeError | Thrown string

record IpSourceInfo =
  geoCountry :: "string option"
  registryCountry :: "string option"
  isNative :: "bool option"
  reason :: string

text \<open>\<^verbatim>\<open>getRegisteredCountryFromMerged\<close>: the ip.guide ASN country, upper-cased, or \<^verbatim>\<open>null\<close>.\<close>

definition getRegisteredCountryFromMerged :: "jsrecord \<Rightarrow> string option" where
  "getRegisteredCountryFromMerged merged =
     (case jsget merged ''ipguide_asn_country'' of
        JStr s \<Rightarrow> if s \<noteq> [] then Some (toUpperCase s) else None
      | _ \<Rightarrow> None)"

text \<open>
  The first truthy value among the four geolocation keys
  (\<^verbatim>\<open>a || b || c || d\<close>, or the last operand when none is truthy).
\<close>

definition geo_candidate :: "jsrecord \<Rightarrow> jsval" where
  "geo_candidate merged =
     js_or (js_or (js_or (jsget merged ''ip2location_country_code'') (jsget merged ''countryCode''))
                  (jsget merged ''country_code''))
           (jsget merged ''ipinfo_country'')"

text \<open>The literals of the reason strings, as UTF-8 bytes.\<close>

definition reason_equal_prefix :: string where
  "reason_equal_prefix = [CHR 0xE6, CHR 0xB3, CHR 0xA8, CHR 0xE5, CHR 0x86, CHR 0x8C, CHR 0xE5, CHR 0x9B,
     CHR 0xBD, CHR 0xE5, CHR 0xAE, CHR 0xB6, CHR 0xE4, CHR 0xB8, CHR 0x8E, CHR 0xE5, CHR 0x9C, CHR 0xB0,
     CHR 0xE7, CHR 0x90, CHR 0x86, CHR 0xE4, CHR 0xBD, CHR 0x8D, CHR 0xE7, CHR 0xBD, CHR 0xAE, CHR 0xE4,
     CHR 0xB8, CHR 0x80, CHR 0xE8, CHR 0x87, CHR 0xB4] @ '' (''"

definition reason_registry_prefix :: string where
  "reason_registry_prefix = [CHR 0xE6, CHR 0xB3, CHR 0xA8, CHR 0xE5, CHR 0x86, CHR 0x8C, CHR 0xE5, CHR 0x9B,
     CHR 0xBD, CHR 0xE5, CHR 0xAE, CHR 0xB6] @ '' ''"

definition reason_geo_infix :: string where
  "reason_geo_infix = [CHR 0xEF, CHR 0xBC, CHR 0x8C, CHR 0xE5, CHR 0x9C, CHR 0xB0, CHR 0xE7, CHR 0x90,
     CHR 0x86, CHR 0xE4, CHR 0xBD, CHR 0x8D, CHR 0xE7, CHR 0xBD, CHR 0xAE] @ '' ''"

definition reason_geo_only_prefix :: string where
  "reason_geo_only_prefix = [CHR 0xE4, CHR 0xBB, CHR 0x85, CHR 0xE6, CHR 0x9C, CHR 0x89, CHR 0xE5, CHR 0x9C,
     CHR 0xB0, CHR 0xE7, CHR 0x90, CHR 0x86, CHR 0xE4, CHR 0xBD, CHR 0x8D, CHR 0xE7, CHR 0xBD, CHR 0xAE] @ '' (''"

definition reason_geo_only_suffix :: string where
  "reason_geo_only_suffix = '')'' @ [CHR 0xEF, CHR 0xBC, CHR 0x8C, CHR 0xE6, CHR 0x97, CHR 0xA0, CHR 0xE6,
     CHR 0xB3, CHR 0x95, CHR 0xE7, CHR 0xA1, CHR 0xAE, CHR 0xE5, CHR 0xAE, CHR 0x9A, CHR 0xE6, CHR 0xB3,
     CHR 0xA8, CHR 0xE5, CHR 0x86, CHR 0x8C, CHR 0xE5, CHR 0x9B, CHR 0xBD, CHR 0xE5, CHR 0xAE, CHR 0xB6]"

definition reason_registry_only_prefix :: string where
  "reason_registry_only_prefix = [CHR 0xE4, CHR 0xBB, CHR 0x85, CHR 0xE6, CHR 0x9C, CHR 0x89, CHR 0xE6,
     CHR 0xB3, CHR 0xA8, CHR 0xE5, CHR 0x86, CHR 0x8C, CHR 0xE5, CHR 0x9B, CHR 0xBD, CHR 0xE5, CHR 0xAE,
     CHR 0xB6] @ '' (''"

definition reason_registry_only_suffix :: string where
  "reason_registry_only_suffix = '')'' @ [CHR 0xEF, CHR 0xBC, CHR 0x8C, CHR 0xE6, CHR 0x97, CHR 0xA0, CHR 0xE5,
     CHR 0x9C, CHR 0xB0, CHR 0xE7, CHR 0x90, CHR 0x86, CHR 0xE4, CHR 0xBD, CHR 0x8D, CHR 0xE7, CHR 0xBD,
     CHR 0xAE, CHR 0xE6, CHR 0x95, CHR 0xB0, CHR 0xE6, CHR 0x8D, CHR 0xAE]"

definition reason_insufficient :: string where
  "reason_insufficient = [CHR 0xE6, CHR 0x95, CHR 0xB0, CHR 0xE6, CHR 0x8D, CHR 0xAE, CHR 0xE4, CHR 0xB8,
     CHR 0x8D, CHR 0xE8, CHR 0xB6, CHR 0xB3]"

text \<open>Truthiness of a \<^verbatim>\<open>string | null\<close>.\<close>

definition truthy_str :: "string option \<Rightarrow> bool" where
  "truthy_str v = (case v of None \<Rightarrow> False | Some s \<Rightarrow> s \<noteq> [])"

text \<open>
  The five-way branch of \<^verbatim>\<open>buildIpSourceInfo\<close> on the upper-cased geolocation country
  (\<open>geo\<close>, possibly empty) and the registry country (possibly \<^verbatim>\<open>null\<close>).
\<close>

definition ip_source_judgment :: "string \<Rightarrow> string option \<Rightarrow> IpSourceInfo" where
  "ip_source_judgment geo registry =
     (if geo \<noteq> [] \<and> truthy_str registry then
        (if Some geo = registry
         then \<lparr>geoCountry = Some geo, registryCountry = registry, isNative = Some True,
               reason = reason_equal_prefix @ geo @ '')''\<rparr>
         else \<lparr>geoCountry = Some geo, registryCountry = registry, isNative = Some False,
               reason = reason_registry_prefix @ the registry @ reason_geo_infix @ geo\<rparr>)
      else if geo \<noteq> [] then
        \<lparr>geoCountry = Some geo, registryCountry = None, isNative = None,
         reason = reason_geo_only_prefix @ geo @ reason_geo_only_suffix\<rparr>
      else if truthy_str registry then
        \<lparr>geoCountry = None, registryCountry = registry, isNative = None,
         reason = reason_registry_only_prefix @ the registry @ reason_registry_only_suffix\<rparr>
      else
        \<lparr>geoCountry = None, registryCountry = None, isNative = None, reason = reason_insufficient\<rparr>)"

text \<open>
  \<^verbatim>\<open>buildIpSourceInfo\<close>. The cast \<^verbatim>\<open>as string\<close> does nothing at run time: calling
  \<^verbatim>\<open>.toUpperCase()\<close> on a truthy value that is not a string throws a \<^verbatim>\<open>TypeError\<close>.
\<close>

definition buildIpSourceInfo :: "jsrecord \<Rightarrow> js_error + IpSourceInfo" where
  "buildIpSourceInfo merged =
     (case js_or (geo_candidate merged) (JStr []) of
        JStr g \<Rightarrow> Inr (ip_source_judgment (toUpperCase g) (getRegisteredCountryFromMerged merged))
      | _ \<Rightarrow> Inl TypeError)"


section \<open>Credential pool (api/keyManager.ts)\<close>

definition DEFAULT_COOLDOWN_MS :: int where
  "DEFAULT_COOLDOWN_MS = 5 * 60 * 1000"

definition FAILURE_DECAY_MS :: int where
  "FAILURE_DECAY_MS = 2 * 60 * 1000"

record KeyState =
  index :: nat
  isHealthy :: bool
  lastFailure :: "int option"
  failureCount :: nat
  successCount :: nat

text \<open>
  The fields of \<^verbatim>\<open>KeyManager\<close> that its methods read and write. \<open>keyStates\<close> is the
  \<^verbatim>\<open>Map<string, KeyState>\<close>; times are milliseconds as \<^verbatim>\<open>Date.now()\<close> gives them.
\<close>

record KeyManager =
  keys :: "string list"
  cooldownMs :: int
  currentIndex :: nat
  keyStates :: "string \<rightharpoonup> KeyState"



text \<open>
  \<^verbatim>\<open>state.lastFailure && (now - state.lastFailure) >= this.cooldownMs\<close>: the guard is false for
  \<^verbatim>\<open>null\<close> and for the number 0.
\<close>

definition cooldown_expired :: "int \<Rightarrow> int \<Rightarrow> KeyState \<Rightarrow> bool" where
  "cooldown_expired now cooldown state =
     (case lastFailure state of None \<Rightarrow> False | Some t \<Rightarrow> t \<noteq> 0 \<and> now - t \<ge> cooldown)"

text \<open>The body of the loop of \<^verbatim>\<open>_cleanupExpiredCooldowns\<close>, for one state.\<close>

definition cleanup_state :: "int \<Rightarrow> int \<Rightarrow> KeyState \<Rightarrow> KeyState" where
  "cleanup_state now cooldown state =
     (case lastFailure state of
        None \<Rightarrow> state
      | Some t \<Rightarrow>
          if \<not> isHealthy state \<and> t \<noteq> 0 then
            (if now - t \<ge> cooldown then state\<lparr>isHealthy := True, failureCount := 0\<rparr>
             else if now - t > FAILURE_DECAY_MS \<and> failureCount state < 2 then state\<lparr>failureCount := 0\<rparr>
             else state)
          else state)"

definition cleanupExpiredCooldowns :: "int \<Rightarrow> KeyManager \<Rightarrow> KeyManager" where
  "cleanupExpiredCooldowns now m =
     m\<lparr>keyStates := (\<lambda>key. map_option (cleanup_state now (cooldownMs m)) (keyStates m key))\<rparr>"

text \<open>
  The \<^verbatim>\<open>while (attempts < this.keys.length)\<close> loop of \<^verbatim>\<open>getNextKey\<close>. Reading a key the
  map has no state for (or an index outside the array) makes \<^verbatim>\<open>state.isHealthy\<close> throw.
\<close>

function probe_keys :: "int \<Rightarrow> nat \<Rightarrow> KeyManager \<Rightarrow> js_error + (string option \<times> KeyManager)" where
  "probe_keys now attempts m =
     (if attempts < length (keys m) then
        (if currentIndex m < length (keys m) then
           (case keyStates m (keys m ! currentIndex m) of
              None \<Rightarrow> Inl TypeError
            | Some state \<Rightarrow>
                (let key = keys m ! currentIndex m;
                     m1 = m\<lparr>currentIndex := (currentIndex m + 1) mod length (keys m)\<rparr>
                 in if isHealthy state then Inr (Some key, m1)
                    else if cooldown_expired now (cooldownMs m) state then
                      Inr (Some key,
                           m1\<lparr>keyStates := (keyStates m1)(key \<mapsto> state\<lparr>isHealthy := True, failureCount := 0\<rparr>)\<rparr>)
                    else probe_keys now (attempts + 1) m1))
         else Inl TypeError)
      else Inr (None, m))"
  by pat_completeness auto
termination
  by (relation "measure (\<lambda>(now, attempts, m). length (keys m) - attempts)") auto

text \<open>\<^verbatim>\<open>getNextKey\<close>, with the value of \<^verbatim>\<open>Date.now()\<close> as a parameter.\<close>

definition getNextKey :: "int \<Rightarrow> KeyManager \<Rightarrow> js_error + (string option \<times> KeyManager)" where
  "getNextKey now m =
     (if length (keys m) = 0 then Inr (None, m)
      else if length (keys m) = 1 then Inr (Some (keys m ! 0), m)
      else probe_keys now 0 (cleanupExpiredCooldowns now m))"


definition markFailure :: "int \<Rightarrow> string \<Rightarrow> KeyManager \<Rightarrow> KeyManager" where
  "markFailure now key m =
     (case keyStates m key of
        None \<Rightarrow> m
      | Some state \<Rightarrow>
          (let s1 = (case lastFailure state of
                       Some t \<Rightarrow> if t \<noteq> 0 \<and> now - t > FAILURE_DECAY_MS then state\<lparr>failureCount := 0\<rparr> else state
                     | None \<Rightarrow> state);
               s2 = s1\<lparr>failureCount := failureCount s1 + 1, lastFailure := Some now\<rparr>;
               s3 = (if failureCount s2 \<ge> 2 then s2\<lparr>isHealthy := False\<rparr> else s2)
           in m\<lparr>keyStates := (keyStates m)(key \<mapsto> s3)\<rparr>))"

text \<open>
  The second argument of \<^verbatim>\<open>isKeyRelatedError\<close>: an \<^verbatim>\<open>Error\<close> object, of which the
  message is read, or any other value, of which the \<^verbatim>\<open>JSON.stringify\<close> text is read (the
  callers pass parsed JSON payloads or nothing, for which the default \<^verbatim>\<open>{}\<close> stands in).
\<close>

datatype response = ErrorObject string | Serialized string

definition response_text :: "response \<Rightarrow> string" where
  "response_text r = (case r of ErrorObject message \<Rightarrow> message | Serialized json \<Rightarrow> json)"

definition errorMessages :: "string list" where
  "errorMessages =
     [''rate limit'', ''quota exceeded'', ''limit exceeded'',
      ''request quota'',
      ''invalid key'', ''invalid api key'', ''unauthorized'',
      ''too many requests'', ''daily limit'', ''monthly limit'',
      ''exceeded'', ''throttl'']"

text \<open>
  \<^verbatim>\<open>isKeyRelatedError\<close>. \<^verbatim>\<open>String.prototype.toLowerCase\<close> is the engine's Unicode case mapping
  (it maps U+212A KELVIN SIGN to \<^verbatim>\<open>k\<close>, for one); it is the parameter \<open>lower\<close>. On ASCII text it
  is \<open>toLowerCase\<close>.
\<close>

definition isKeyRelatedError :: "(string \<Rightarrow> string) \<Rightarrow> nat \<Rightarrow> response \<Rightarrow> bool" where
  "isKeyRelatedError lower status response =
     (if List.member [401, 403, 429] status then True
      else (let responseStr = lower (response_text response)
            in list_ex (\<lambda>msg. includes_str responseStr msg) errorMessages))"

text \<open>The pool is as the constructor and the methods leave it: every key has a state, the cursor is an index.\<close>

definition wf_manager :: "KeyManager \<Rightarrow> bool" where
  "wf_manager m = (list_all (\<lambda>key. keyStates m key \<noteq> None) (keys m) \<and>
                   (keys m = [] \<or> currentIndex m < length (keys m)))"

text \<open>A key can be handed out at time \<open>now\<close>: it is healthy, or its cooldown has run out.\<close>

definition key_available :: "int \<Rightarrow> KeyManager \<Rightarrow> string \<Rightarrow> bool" where
  "key_available now m key =
     (case keyStates m key of
        None \<Rightarrow> False
      | Some state \<Rightarrow> isHealthy state \<or> cooldown_expired now (cooldownMs m) state)"

text \<open>A pool of one key that failed twice a second ago, and a body that only says \<^verbatim>\<open>quota\<close>.\<close>

definition stuck_pool :: KeyManager where
  "stuck_pool =
     \<lparr>keys = [''K1''], cooldownMs = DEFAULT_COOLDOWN_MS, currentIndex = 0,
      keyStates = [''K1'' \<mapsto> \<lparr>index = 0, isHealthy = False, lastFailure = Some 1000,
                                failureCount = 2, successCount = 0\<rparr>]\<rparr>"

text \<open>Three keys, the first one unhealthy since a minute, the cursor on it.\<close>

definition abc_pool :: KeyManager where
  "abc_pool =
     \<lparr>keys = [''A'', ''B'', ''C''], cooldownMs = DEFAULT_COOLDOWN_MS, currentIndex = 0,
      keyStates = [''A'' \<mapsto> \<lparr>index = 0, isHealthy = False, lastFailure = Some 1000,
                               failureCount = 2, successCount = 0\<rparr>,
                   ''B'' \<mapsto> \<lparr>index = 1, isHealthy = True, lastFailure = None,
                               failureCount = 0, successCount = 0\<rparr>,
                   ''C'' \<mapsto> \<lparr>index = 2, isHealthy = True, lastFailure = None,
                               failureCount = 0, successCount = 0\<rparr>]\<rparr>"


section \<open>Preparing the exit list (core/batchCheck.ts, types/api.ts)\<close>

text \<open>
  The edge snapshot \<^verbatim>\<open>cfData\<close>. \<^verbatim>\<open>prepareExits\<close> and the stream read its \<^verbatim>\<open>ip\<close> and
  \<^verbatim>\<open>network?.asn\<close> and copy the rest, which is kept here as one opaque field.
\<close>

record CfNativeData =
  cf_ip :: string
  cf_network_asn :: jsval
  cf_other :: string

record ExitItem =
  exitType :: string
  cfData :: CfNativeData

definition EXIT_TYPE_ORDER :: "(string \<times> nat) list" where
  "EXIT_TYPE_ORDER = [(''ipv4'', 1), (''ipv6'', 2), (''warp_v4'', 3), (''warp_v6'', 4), (''he_v6'', 5)]"

text \<open>
  \<^verbatim>\<open>EXIT_TYPE_ORDER\<close> is an object literal, so a lookup also finds what it inherits from
  \<^verbatim>\<open>Object.prototype\<close>: functions (and, for \<^verbatim>\<open>__proto__\<close>, the prototype object), all
  truthy and none a number.
\<close>

definition object_prototype_keys :: "string list" where
  "object_prototype_keys =
     [''constructor'', ''hasOwnProperty'', ''isPrototypeOf'', ''propertyIsEnumerable'', ''toLocaleString'',
      ''toString'', ''valueOf'', ''__proto__'', ''__defineGetter__'', ''__defineSetter__'',
      ''__lookupGetter__'', ''__lookupSetter__'']"

datatype order_val = OrderNum nat | OrderInherited string

text \<open>\<^verbatim>\<open>EXIT_TYPE_ORDER[exitType] || 999\<close>.\<close>

definition exit_order :: "string \<Rightarrow> order_val" where
  "exit_order t =
     (case map_of EXIT_TYPE_ORDER t of
        Some n \<Rightarrow> if n \<noteq> 0 then OrderNum n else OrderNum 999
      | None \<Rightarrow> if List.member object_prototype_keys t then OrderInherited t else OrderNum 999)"

text \<open>
  The comparator of the sort. Subtracting where one side is not a number gives \<^verbatim>\<open>NaN\<close>.
  \<^verbatim>\<open>String.prototype.localeCompare\<close> is the host's collation (a negative number, zero or a
  positive number) and is a parameter of the model.
\<close>

definition compare_exits :: "(string \<Rightarrow> string \<Rightarrow> int) \<Rightarrow> ExitItem \<Rightarrow> ExitItem \<Rightarrow> js_number" where
  "compare_exits localeCompare a b =
     (let orderA = exit_order (exitType a); orderB = exit_order (exitType b)
      in if orderA \<noteq> orderB then
           (case (orderA, orderB) of
              (OrderNum x, OrderNum y) \<Rightarrow> Finite (int x - int y)
            | _ \<Rightarrow> NaN)
         else Finite (localeCompare (exitType a) (exitType b)))"

text \<open>
  \<^verbatim>\<open>Array.prototype.sort\<close> with a comparator. Inside the sort a \<^verbatim>\<open>NaN\<close> is read as 0
  (\<^verbatim>\<open>SortCompare\<close>). The language fixes the result only for a comparator that is a
  \<^emph>\<open>consistent comparison function\<close> for the elements: it never answers \<^verbatim>\<open>NaN\<close>, every
  element ties with itself, ties are symmetric, and ties, \<open><\<close> and \<open>>\<close> are transitive. For any
  other comparator the order is implementation-defined, which is \<open>None\<close> here.
\<close>

definition sort_compare :: "('a \<Rightarrow> 'a \<Rightarrow> js_number) \<Rightarrow> 'a \<Rightarrow> 'a \<Rightarrow> int" where
  "sort_compare cmp x y =
     (case cmp x y of NaN \<Rightarrow> 0 | Finite v \<Rightarrow> v | PlusInfinity \<Rightarrow> 1 | MinusInfinity \<Rightarrow> - 1)"

definition consistent_comparator :: "('a \<Rightarrow> 'a \<Rightarrow> js_number) \<Rightarrow> 'a list \<Rightarrow> bool" where
  "consistent_comparator cmp xs =
     (list_all (\<lambda>a. list_all (\<lambda>b. cmp a b \<noteq> NaN) xs) xs \<and>
      list_all (\<lambda>a. sort_compare cmp a a = 0) xs \<and>
      list_all (\<lambda>a. list_all (\<lambda>b. sort_compare cmp a b = 0 \<longrightarrow> sort_compare cmp b a = 0) xs) xs \<and>
      list_all (\<lambda>a. list_all (\<lambda>b. list_all (\<lambda>c.
          (sort_compare cmp a b = 0 \<and> sort_compare cmp b c = 0 \<longrightarrow> sort_compare cmp a c = 0) \<and>
          (sort_compare cmp a b < 0 \<and> sort_compare cmp b c < 0 \<longrightarrow> sort_compare cmp a c < 0) \<and>
          (sort_compare cmp a b > 0 \<and> sort_compare cmp b c > 0 \<longrightarrow> sort_compare cmp a c > 0)) xs) xs) xs)"

text \<open>
  The sort is stable, so for a consistent comparator its result is the one of insertion sort,
  where an element stays before the later elements it ties with.
\<close>

fun insert_by :: "('a \<Rightarrow> 'a \<Rightarrow> int) \<Rightarrow> 'a \<Rightarrow> 'a list \<Rightarrow> 'a list" where
  "insert_by cmp x [] = [x]"
| "insert_by cmp x (y # ys) = (if cmp x y \<le> 0 then x # y # ys else y # insert_by cmp x ys)"

definition array_sort :: "('a \<Rightarrow> 'a \<Rightarrow> js_number) \<Rightarrow> 'a list \<Rightarrow> 'a list option" where
  "array_sort cmp xs =
     (if consistent_comparator cmp xs then Some (foldr (insert_by (sort_compare cmp)) xs []) else None)"

record PreparedIpItem =
  prep_ip :: string
  prep_exitType :: string
  prep_asn :: jsval
  prep_cfData :: CfNativeData
  prep_order :: order_val

text \<open>The loop over \<^verbatim>\<open>sortedExits\<close> with the set \<^verbatim>\<open>seenIps\<close>.\<close>

fun prepare_loop :: "ExitItem list \<Rightarrow> string list \<Rightarrow> PreparedIpItem list" where
  "prepare_loop [] seenIps = []"
| "prepare_loop (exit # rest) seenIps =
     (let ip = cf_ip (cfData exit)
      in if List.member seenIps ip then prepare_loop rest seenIps
         else \<lparr>prep_ip = ip, prep_exitType = exitType exit, prep_asn = cf_network_asn (cfData exit),
               prep_cfData = cfData exit, prep_order = exit_order (exitType exit)\<rparr>
              # prepare_loop rest (ip # seenIps))"

record PreparedExits =
  ipList :: "PreparedIpItem list"
  uniqueIpCount :: nat

text \<open>\<^verbatim>\<open>prepareExits\<close>; \<open>None\<close> where the language leaves the order of the sort open.\<close>

definition prepareExits :: "(string \<Rightarrow> string \<Rightarrow> int) \<Rightarrow> ExitItem list \<Rightarrow> PreparedExits option" where
  "prepareExits localeCompare exits =
     (case array_sort (compare_exits localeCompare) exits of
        None \<Rightarrow> None
      | Some sortedExits \<Rightarrow>
          (let ipList = prepare_loop sortedExits []
           in Some \<lparr>ipList = ipList, uniqueIpCount = length ipList\<rparr>))"

text \<open>
  The order of the specification, to compare the code with: the weights of the five exit
  types, with the 999 of the code for any other, and one exit type ranking no later than
  another, first by weight and then by the collation.
\<close>

definition spec_exit_weight :: "string \<Rightarrow> nat" where
  "spec_exit_weight t =
     (if t = ''ipv4'' then 1 else if t = ''ipv6'' then 2 else if t = ''warp_v4'' then 3
      else if t = ''warp_v6'' then 4 else if t = ''he_v6'' then 5 else 999)"

definition spec_ranks_before :: "(string \<Rightarrow> string \<Rightarrow> int) \<Rightarrow> string \<Rightarrow> string \<Rightarrow> bool" where
  "spec_ranks_before collate s t =
     (spec_exit_weight s < spec_exit_weight t \<or>
      (spec_exit_weight s = spec_exit_weight t \<and> collate s t \<le> 0))"

text \<open>
  Two collations for examples. The first compares code units from the left, a proper prefix
  first (lexicographic order). The second ranks letters alphabetically before it looks at
  their case, lower case first, as the root collation of ICU does: \<^verbatim>\<open>a\<close> before \<^verbatim>\<open>B\<close>.
\<close>

fun lex_compare :: "string \<Rightarrow> string \<Rightarrow> int" where
  "lex_compare [] [] = 0"
| "lex_compare [] (d # t) = - 1"
| "lex_compare (c # s) [] = 1"
| "lex_compare (c # s) (d # t) =
     (if c = d then lex_compare s t
      else if (of_char c :: nat) < of_char d then - 1 else 1)"

definition alphabetic_compare :: "string \<Rightarrow> string \<Rightarrow> int" where
  "alphabetic_compare s t =
     (if lex_compare (toLowerCase s) (toLowerCase t) \<noteq> 0 then lex_compare (toLowerCase s) (toLowerCase t)
      else lex_compare t s)"



section \<open>The KV cache helper and the AI analysis route (middleware/cache.ts, routes/ai.ts)\<close>

text \<open>
  A KV namespace holds, per key, a stored JSON value and the \<^verbatim>\<open>expirationTtl\<close> it was put
  with; a binding may be absent (\<^verbatim>\<open>kv\<close> undefined). A \<^verbatim>\<open>get\<close> or \<^verbatim>\<open>put\<close> may throw, which
  the callers catch and log.
\<close>

type_synonym 'a kv_namespace = "string \<rightharpoonup> 'a \<times> js_number"

record kv_faults =
  get_throws :: bool
  put_throws :: bool

definition kv_get :: "'a kv_namespace \<Rightarrow> kv_faults \<Rightarrow> string \<Rightarrow> js_error + 'a option" where
  "kv_get store faults key =
     (if get_throws faults then Inl (Thrown ''KV get failed'') else Inr (map_option fst (store key)))"

definition kv_put :: "'a kv_namespace \<Rightarrow> kv_faults \<Rightarrow> string \<Rightarrow> 'a \<Rightarrow> js_number \<Rightarrow> js_error + 'a kv_namespace" where
  "kv_put store faults key v ttl =
     (if put_throws faults then Inl (Thrown ''KV put failed'') else Inr (store(key \<mapsto> (v, ttl))))"

text \<open>
  \<^verbatim>\<open>getOrSetCache\<close>. The fetcher is called only after a miss; its outcome (a value, or an
  exception) is the third argument. \<open>is_truthy\<close> is the truthiness of a stored value of the
  type at hand. The result is the value returned and the namespace afterwards.
\<close>

definition getOrSetCache ::
  "('a \<Rightarrow> bool) \<Rightarrow> string \<Rightarrow> (js_error + 'a) \<Rightarrow> 'a kv_namespace option \<Rightarrow> kv_faults \<Rightarrow> js_number \<Rightarrow>
   ('a \<Rightarrow> bool) option \<Rightarrow> js_error + ('a \<times> 'a kv_namespace option)" where
  "getOrSetCache is_truthy key fetcher kv faults ttlSeconds shouldCache =
     (case kv of
        None \<Rightarrow> (case fetcher of Inl e \<Rightarrow> Inl e | Inr fetched \<Rightarrow> Inr (fetched, None))
      | Some store \<Rightarrow>
          (let cached = (case kv_get store faults key of Inl e \<Rightarrow> None | Inr c \<Rightarrow> c)
           in case cached of
                Some c \<Rightarrow>
                  if is_truthy c then Inr (c, Some store)
                  else (case fetcher of
                          Inl e \<Rightarrow> Inl e
                        | Inr fetched \<Rightarrow>
                            if \<not> (case shouldCache of Some f \<Rightarrow> f fetched | None \<Rightarrow> True)
                            then Inr (fetched, Some store)
                            else (case kv_put store faults key fetched ttlSeconds of
                                    Inl e \<Rightarrow> Inr (fetched, Some store)
                                  | Inr store' \<Rightarrow> Inr (fetched, Some store')))
              | None \<Rightarrow>
                  (case fetcher of
                     Inl e \<Rightarrow> Inl e
                   | Inr fetched \<Rightarrow>
                       if \<not> (case shouldCache of Some f \<Rightarrow> f fetched | None \<Rightarrow> True)
                       then Inr (fetched, Some store)
                       else (case kv_put store faults key fetched ttlSeconds of
                               Inl e \<Rightarrow> Inr (fetched, Some store)
                             | Inr store' \<Rightarrow> Inr (fetched, Some store')))))"

text \<open>
  \<^verbatim>\<open>getCacheTTL\<close>, from the environment variable \<^verbatim>\<open>CACHE_TTL_SECONDS\<close> (possibly unset).
  \<open>parseInt s\<close> is what the engine's \<^verbatim>\<open>parseInt(s, 10)\<close> returns (it skips Unicode white space
  and rounds to a double), a parameter of the model. \<^verbatim>\<open>NaN\<close> and every number below 60,
  \<^verbatim>\<open>-Infinity\<close> included, give 900.
\<close>

definition getCacheTTL :: "(string \<Rightarrow> js_number) \<Rightarrow> string option \<Rightarrow> js_number" where
  "getCacheTTL parseInt CACHE_TTL_SECONDS =
     (case parseInt (case CACHE_TTL_SECONDS of Some s \<Rightarrow> s | None \<Rightarrow> []) of
        NaN \<Rightarrow> Finite 900
      | Finite ttl \<Rightarrow> if ttl < 60 then Finite 900 else Finite ttl
      | PlusInfinity \<Rightarrow> PlusInfinity
      | MinusInfinity \<Rightarrow> Finite 900)"

text \<open>
  What \<^verbatim>\<open>analyzeWithLLM\<close> returns: \<^verbatim>\<open>null\<close> or an object whose \<^verbatim>\<open>reasoning\<close> the
  route reads as \<^verbatim>\<open>unknown\<close>; the debug part is opaque.
\<close>

record LlmResult =
  reasoning :: jsval
  llm_debug :: string

definition AI_UNAVAILABLE :: string where
  "AI_UNAVAILABLE = ''AI '' @ [CHR 0xE5, CHR 0x88, CHR 0x86, CHR 0xE6, CHR 0x9E, CHR 0x90, CHR 0xE6, CHR 0x9A,
     CHR 0x82, CHR 0xE6, CHR 0x97, CHR 0xB6, CHR 0xE4, CHR 0xB8, CHR 0x8D, CHR 0xE5, CHR 0x8F, CHR 0xAF,
     CHR 0xE7, CHR 0x94, CHR 0xA8]"

text \<open>The \<^verbatim>\<open>shouldCache\<close> predicate of the route.\<close>

definition shouldCache_ai :: "LlmResult option \<Rightarrow> bool" where
  "shouldCache_ai v =
     (case v of
        None \<Rightarrow> False
      | Some obj \<Rightarrow>
          (case reasoning obj of
             JStr r \<Rightarrow> if r = AI_UNAVAILABLE then False
                       else if startsWith r ''AI Analysis Failed'' then False
                       else True
           | _ \<Rightarrow> False))"

text \<open>The result \<^verbatim>\<open>analyzeWithLLM\<close> builds in its \<^verbatim>\<open>catch\<close> block.\<close>

definition llm_failure :: "string \<Rightarrow> LlmResult option" where
  "llm_failure message = Some \<lparr>reasoning = JStr (''AI Analysis Failed: '' @ message), llm_debug = message\<rparr>"

definition ai_cache_key :: "string \<Rightarrow> string \<Rightarrow> string" where
  "ai_cache_key cacheVersion ip = cacheVersion @ '':ai:analysis:'' @ ip"

text \<open>
  The cached part of \<^verbatim>\<open>POST /api/ai-analysis\<close>: \<open>analysis\<close> is what \<^verbatim>\<open>analyzeWithLLM\<close>
  returns (or throws) if it is called.
\<close>

definition ai_analysis_cached ::
  "(string \<Rightarrow> js_number) \<Rightarrow> string \<Rightarrow> string \<Rightarrow> string option \<Rightarrow> (js_error + LlmResult option) \<Rightarrow>
   LlmResult option kv_namespace option \<Rightarrow> kv_faults \<Rightarrow>
   js_error + (LlmResult option \<times> LlmResult option kv_namespace option)" where
  "ai_analysis_cached parseInt cacheVersion ip CACHE_TTL_SECONDS analysis kv faults =
     getOrSetCache (\<lambda>v. v \<noteq> None) (ai_cache_key cacheVersion ip) analysis kv faults
       (getCacheTTL parseInt CACHE_TTL_SECONDS) (Some shouldCache_ai)"

text \<open>The entry a namespace holds under a key after a call, if the call returned.\<close>

definition entry_after :: "js_error + ('a \<times> 'a kv_namespace option) \<Rightarrow> string \<Rightarrow> ('a \<times> js_number) option" where
  "entry_after outcome key =
     (case outcome of
        Inl e \<Rightarrow> None
      | Inr (v, kv) \<Rightarrow> (case kv of None \<Rightarrow> None | Some store \<Rightarrow> store key))"

definition no_faults :: kv_faults where
  "no_faults = \<lparr>get_throws = False, put_throws = False\<rparr>"

text \<open>An answer of the model with an empty content, and an ordinary one.\<close>

definition empty_analysis :: "LlmResult option" where
  "empty_analysis = Some \<lparr>reasoning = JStr [], llm_debug = []\<rparr>"

definition good_analysis :: LlmResult where
  "good_analysis = \<lparr>reasoning = JStr ''## Score: 85'', llm_debug = []\<rparr>"


section \<open>The keyed provider fetch (api/client.ts)\<close>

datatype api_status = StatusSuccess | StatusError

record ApiResult =
  api_source :: string
  api_data :: "jsrecord option"
  api_rawData :: "string option"
  api_error :: "string option"
  api_status :: api_status






definition error_result :: "string \<Rightarrow> string \<Rightarrow> ApiResult" where
  "error_result name message =
     \<lparr>api_source = name, api_data = None, api_rawData = None, api_error = Some message,
      api_status = StatusError\<rparr>"









section \<open>The single-IP aggregator (core/batchCheck.ts)\<close>

datatype 'a settled = Fulfilled 'a | Rejected

text \<open>The loops over the settled results: a fulfilled success is pushed to \<^verbatim>\<open>successful\<close>, any other fulfilled result to \<^verbatim>\<open>errors\<close>.\<close>

fun collect_settled ::
  "ApiResult settled list \<Rightarrow> ApiResult list \<times> ApiResult list \<Rightarrow> ApiResult list \<times> ApiResult list" where
  "collect_settled [] acc = acc"
| "collect_settled (Fulfilled v # rest) (successful, errors) =
     (if api_status v = StatusSuccess then collect_settled rest (successful @ [v], errors)
      else collect_settled rest (successful, errors @ [v]))"
| "collect_settled (Rejected # rest) acc = collect_settled rest acc"

text \<open>\<^verbatim>\<open>mergeResults\<close>: later results overlay earlier ones.\<close>

definition mergeResults :: "ApiResult list \<Rightarrow> jsrecord" where
  "mergeResults results =
     foldl (\<lambda>merged result. case api_data result of Some d \<Rightarrow> merged ++ d | None \<Rightarrow> merged) Map.empty results"

definition CACHE_VERSION :: string where
  "CACHE_VERSION = ''v1''"

definition NEGATIVE_CACHE_TTL_SECONDS :: int where
  "NEGATIVE_CACHE_TTL_SECONDS = 60"

definition getMergedIpCacheKey :: "string \<Rightarrow> string" where
  "getMergedIpCacheKey ip = CACHE_VERSION @ '':merged:'' @ ip"

record CachedMergedIpData =
  cached_merged :: jsrecord
  cached_successful :: "ApiResult list"
  cached_errors :: "ApiResult list"
  cached_asn :: jsval
  cachedAt :: int
  isNegativeCache :: "bool option"

definition getCachedMergedIpData ::
  "CachedMergedIpData kv_namespace option \<Rightarrow> kv_faults \<Rightarrow> string \<Rightarrow> CachedMergedIpData option" where
  "getCachedMergedIpData kv faults ip =
     (case kv of
        None \<Rightarrow> None
      | Some store \<Rightarrow> (case kv_get store faults (getMergedIpCacheKey ip) of Inl e \<Rightarrow> None | Inr cached \<Rightarrow> cached))"

definition setCachedMergedIpData ::
  "CachedMergedIpData kv_namespace option \<Rightarrow> kv_faults \<Rightarrow> string \<Rightarrow> CachedMergedIpData \<Rightarrow> js_number \<Rightarrow>
   CachedMergedIpData kv_namespace option" where
  "setCachedMergedIpData kv faults ip cache_data ttlSeconds =
     (case kv of
        None \<Rightarrow> None
      | Some store \<Rightarrow>
          (case kv_put store faults (getMergedIpCacheKey ip) cache_data ttlSeconds of
             Inl e \<Rightarrow> Some store
           | Inr store' \<Rightarrow> Some store'))"

record IpApiCheckResult =
  res_ip :: string
  res_asn :: jsval
  res_successful :: "ApiResult list"
  res_errors :: "ApiResult list"
  res_merged :: jsrecord
  partiallyFromCache :: bool
  cachedApiCount :: nat
  totalApiCount :: nat

text \<open>\<^verbatim>\<open>typeof v === 'string' || typeof v === 'number' ? v : undefined\<close>.\<close>

definition string_or_number :: "jsval \<Rightarrow> jsval" where
  "string_or_number v = (case v of JStr s \<Rightarrow> v | JNum n \<Rightarrow> v | _ \<Rightarrow> JUndefined)"

text \<open>
  The ASN the second wave is asked with: the caller's, or the first of \<^verbatim>\<open>asn\<close>, \<^verbatim>\<open>ASN\<close>,
  \<^verbatim>\<open>as\<close> in the merged first wave that is a truthy string or number.
\<close>

definition detect_asn :: "jsval \<Rightarrow> jsrecord \<Rightarrow> jsval" where
  "detect_asn asn mergedPhase1 =
     js_or (js_or (js_or asn (string_or_number (jsget mergedPhase1 ''asn'')))
                  (string_or_number (jsget mergedPhase1 ''ASN'')))
           (string_or_number (jsget mergedPhase1 ''as''))"

text \<open>
  \<^verbatim>\<open>checkSingleIpWithCache\<close>. The provider calls are the environment: \<open>phase1\<close> is what
  \<^verbatim>\<open>Promise.allSettled\<close> returns for the first wave, \<open>phase2\<close> what it returns for the
  ASN-dependent providers (of which \<open>asnDependentCount\<close> are enabled) given the detected ASN;
  \<open>now\<close> is \<^verbatim>\<open>Date.now()\<close>. The result is the check result and the namespace afterwards.
\<close>

definition checkSingleIpWithCache ::
  "(string \<Rightarrow> js_number) \<Rightarrow> string \<Rightarrow> jsval \<Rightarrow> string option \<Rightarrow> CachedMergedIpData kv_namespace option \<Rightarrow>
   kv_faults \<Rightarrow> int \<Rightarrow> ApiResult settled list \<Rightarrow> (jsval \<Rightarrow> ApiResult settled list) \<Rightarrow> nat \<Rightarrow>
   IpApiCheckResult \<times> CachedMergedIpData kv_namespace option" where
  "checkSingleIpWithCache parseInt ip asn CACHE_TTL_SECONDS kv faults now phase1 phase2 asnDependentCount =
     (case getCachedMergedIpData kv faults ip of
        Some cachedData \<Rightarrow>
          (\<lparr>res_ip = ip, res_asn = cached_asn cachedData,
            res_successful = cached_successful cachedData, res_errors = cached_errors cachedData,
            res_merged = cached_merged cachedData, partiallyFromCache = True,
            cachedApiCount = length (cached_successful cachedData),
            totalApiCount = length (cached_successful cachedData) + length (cached_errors cachedData)\<rparr>,
           kv)
      | None \<Rightarrow>
          (let (successful1, errors1) = collect_settled phase1 ([], []);
               mergedPhase1 = mergeResults successful1;
               detectedAsn = detect_asn asn mergedPhase1;
               (successful, errors) =
                 (if truthy detectedAsn \<and> asnDependentCount > 0
                  then collect_settled (phase2 detectedAsn) (successful1, errors1)
                  else (successful1, errors1));
               merged = mergeResults successful;
               total = length successful + length errors;
               kv' =
                 (if length successful > 0 then
                    setCachedMergedIpData kv faults ip
                      \<lparr>cached_merged = merged, cached_successful = successful, cached_errors = errors,
                       cached_asn = detectedAsn, cachedAt = now, isNegativeCache = None\<rparr>
                      (getCacheTTL parseInt CACHE_TTL_SECONDS)
                  else if length errors > 0 then
                    setCachedMergedIpData kv faults ip
                      \<lparr>cached_merged = Map.empty, cached_successful = [], cached_errors = errors,
                       cached_asn = detectedAsn, cachedAt = now, isNegativeCache = Some True\<rparr>
                      (Finite NEGATIVE_CACHE_TTL_SECONDS)
                  else kv)
           in (\<lparr>res_ip = ip, res_asn = detectedAsn, res_successful = successful, res_errors = errors,
                 res_merged = merged, partiallyFromCache = False, cachedApiCount = 0,
                 totalApiCount = total\<rparr>,
               kv')))"

text \<open>Sample provider results and a two-key pool.\<close>

definition ipinfo_ok :: ApiResult where
  "ipinfo_ok = \<lparr>api_source = ''ipinfo'', api_data = Some [''ipinfo_country'' \<mapsto> JStr ''US''],
     api_rawData = None, api_error = None, api_status = StatusSuccess\<rparr>"

definition ipqs_failed :: ApiResult where
  "ipqs_failed = error_result ''ipqs'' ''HTTP 429: slow down''"




text \<open>The merged-data entry a namespace holds for an IP.\<close>

definition merged_entry :: "CachedMergedIpData kv_namespace option \<Rightarrow> string \<Rightarrow> (CachedMergedIpData \<times> js_number) option" where
  "merged_entry kv ip = (case kv of None \<Rightarrow> None | Some store \<Rightarrow> store (getMergedIpCacheKey ip))"

text \<open>A first wave in which ipinfo answers and IPQS fails, and one in which only IPQS was asked.\<close>

definition mixed_wave :: "ApiResult settled list" where
  "mixed_wave = [Fulfilled ipinfo_ok, Fulfilled ipqs_failed]"

definition failed_wave :: "ApiResult settled list" where
  "failed_wave = [Fulfilled ipqs_failed]"






section \<open>The batch streams (core/batchCheck.ts, routes/exits.ts, routes/manualCheck.ts)\<close>

record StreamProgress =
  completed :: nat
  total :: nat


































section \<open>Properties of the string helpers\<close>

lemma startsWith_prefix: "startsWith s p \<longleftrightarrow> prefix p s"
  by (induction s p rule: startsWith.induct) auto

lemma includes_str_sublist: "includes_str s p \<longleftrightarrow> sublist p s"
proof (induction s)
  case Nil
  show ?case by simp
next
  case (Cons c s)
  then show ?case
    by (cases p) (auto simp: startsWith_prefix sublist_Cons_right)
qed


section \<open>IP type voting\<close>


lemma normalize_loop_range: "normalize_loop t IP_TYPE_PATTERNS \<in> normalized_types"
  by (simp add: IP_TYPE_PATTERNS_def normalized_types_def)

lemma normalizeIpType_range: "normalizeIpType v \<in> normalized_types"
  using normalize_loop_range
  by (cases v) (simp_all add: normalizeIpType_def normalized_types_def)

lemma datacenter_normalized: "''datacenter'' \<in> normalized_types"
  by (simp add: normalized_types_def)

lemma empty_not_normalized: "[] \<notin> normalized_types"
  by (simp add: normalized_types_def)

lemma normalizeIpType_nonempty: "normalizeIpType v \<noteq> []"
  using normalizeIpType_range [of v] by (auto simp: normalized_types_def)

lemma getDisplayType_known:
  "getDisplayType ''residential'' \<noteq> display_unknown"
  "getDisplayType ''mobile'' \<noteq> display_unknown"
  "getDisplayType ''datacenter'' \<noteq> display_unknown"
  "getDisplayType ''commercial'' \<noteq> display_unknown"
  "getDisplayType ''education'' \<noteq> display_unknown"
  "getDisplayType ''government'' \<noteq> display_unknown"
  "getDisplayType ''unknown'' = display_unknown"
  by (simp_all add: getDisplayType_def toLowerCase_def lower_char_def upper_letters_def lower_letters_def
      IP_TYPE_DISPLAY_def display_unknown_def)

lemma getDisplayType_literal:
  "getDisplayType ''residential'' \<noteq> ''unknown''"
  "getDisplayType ''mobile'' \<noteq> ''unknown''"
  "getDisplayType ''datacenter'' \<noteq> ''unknown''"
  "getDisplayType ''commercial'' \<noteq> ''unknown''"
  "getDisplayType ''education'' \<noteq> ''unknown''"
  "getDisplayType ''government'' \<noteq> ''unknown''"
  "getDisplayType ''unknown'' \<noteq> ''unknown''"
  by (simp_all add: getDisplayType_def toLowerCase_def lower_char_def upper_letters_def lower_letters_def
      IP_TYPE_DISPLAY_def display_unknown_def)

lemma getDisplayType_unknown_iff:
  "t \<in> normalized_types \<Longrightarrow> getDisplayType t = display_unknown \<longleftrightarrow> t = ''unknown''"
  unfolding normalized_types_def using getDisplayType_known by auto

lemma bump_vote_nonempty: "bump_vote t kvs \<noteq> []"
  by (cases "(t, kvs)" rule: bump_vote.cases) auto

lemma bump_vote_keys: "fst ` set (bump_vote t kvs) = insert t (fst ` set kvs)"
  by (induction t kvs rule: bump_vote.induct) auto

lemma bump_vote_pos: "\<forall>(k, n) \<in> set kvs. 0 < n \<Longrightarrow> \<forall>(k, n) \<in> set (bump_vote t kvs). 0 < n"
  by (induction kvs) (auto split: if_splits)

lemma tally_votes_empty_iff:
  "tally_votes ds acc = [] \<longleftrightarrow> acc = [] \<and> (\<forall>d \<in> set ds. normalizedType d = [] \<or> normalizedType d = ''unknown'')"
  by (induction ds arbitrary: acc) (auto simp: Let_def bump_vote_nonempty)

lemma tally_votes_keys:
  "fst ` set (tally_votes ds acc) \<subseteq> fst ` set acc \<union> {t. t \<noteq> [] \<and> t \<noteq> ''unknown''}"
proof (induction ds arbitrary: acc)
  case Nil
  show ?case by simp
next
  case (Cons d ds)
  show ?case
    using Cons.IH [of acc] Cons.IH [of "bump_vote (normalizedType d) acc"]
    by (auto simp: Let_def bump_vote_keys)
qed

lemma tally_votes_keys_sub:
  "fst ` set (tally_votes ds acc) \<subseteq> fst ` set acc \<union> normalizedType ` set ds"
proof (induction ds arbitrary: acc)
  case Nil
  show ?case by simp
next
  case (Cons d ds)
  show ?case
    using Cons.IH [of acc] Cons.IH [of "bump_vote (normalizedType d) acc"]
    by (auto simp: Let_def bump_vote_keys)
qed

lemma tally_votes_pos:
  "\<forall>(k, n) \<in> set acc. 0 < n \<Longrightarrow> \<forall>(k, n) \<in> set (tally_votes ds acc). 0 < n"
proof (induction ds arbitrary: acc)
  case Nil
  then show ?case by simp
next
  case (Cons d ds)
  then show ?case
    using bump_vote_pos [of acc "normalizedType d"] by (simp add: Let_def)
qed

lemma max_votes_mem: "fst (max_votes kvs best) \<in> insert (fst best) (fst ` set kvs)"
  by (induction kvs best rule: max_votes.induct) auto

lemma max_votes_first:
  "kvs \<noteq> [] \<Longrightarrow> \<forall>(k, n) \<in> set kvs. 0 < n \<Longrightarrow> fst (max_votes kvs (b, 0)) \<in> fst ` set kvs"
proof (cases kvs)
  case Nil
  assume "kvs \<noteq> []"
  with Nil show ?thesis by simp
next
  case (Cons kv rest)
  assume pos: "\<forall>(k, n) \<in> set kvs. 0 < n"
  obtain k n where kv: "kv = (k, n)" by (cases kv)
  with pos Cons have "0 < n" by simp
  then have "max_votes kvs (b, 0) = max_votes rest (k, n)"
    using Cons kv by simp
  then show ?thesis
    using max_votes_mem [of rest "(k, n)"] Cons kv by auto
qed

lemma voteIpType_unknown_iff:
  "voteIpType ds = ''unknown'' \<longleftrightarrow> (\<forall>d \<in> set ds. normalizedType d = [] \<or> normalizedType d = ''unknown'')"
proof (cases "tally_votes ds [] = []")
  case True
  then have "\<forall>d \<in> set ds. normalizedType d = [] \<or> normalizedType d = ''unknown''"
    by (simp add: tally_votes_empty_iff)
  with True show ?thesis
    by (simp add: voteIpType_def)
next
  case False
  have pos: "\<forall>(k, n) \<in> set (tally_votes ds []). 0 < n"
    by (rule tally_votes_pos) simp
  have "fst (max_votes (tally_votes ds []) (''unknown'', 0)) \<in> fst ` set (tally_votes ds [])"
    by (rule max_votes_first [OF False pos])
  with tally_votes_keys [of ds "[]"]
  have "fst (max_votes (tally_votes ds []) (''unknown'', 0)) \<noteq> ''unknown''"
    by auto
  moreover have "\<not> (\<forall>d \<in> set ds. normalizedType d = [] \<or> normalizedType d = ''unknown'')"
    using False by (simp add: tally_votes_empty_iff)
  ultimately show ?thesis
    by (simp add: voteIpType_def Let_def)
qed


lemma extract_normalized_nonempty:
  "d \<in> set (extractTypeSourceDetails merged) \<Longrightarrow> normalizedType d \<in> normalized_types"
  by (auto simp: extractTypeSourceDetails_def ipqs_detail_def abuseipdb_detail_def ip2location_detail_def
      ipinfo_hosting_detail_def normalizeIpType_range datacenter_normalized split: jsval.splits if_splits)

lemma extract_empty_iff:
  "extractTypeSourceDetails merged = [] \<longleftrightarrow>
     \<not> (nonempty_string (jsget merged ''connection_type'') \<and> \<not> contains_premium (jsget merged ''connection_type'')) \<and>
     \<not> nonempty_string (jsget merged ''usageType'') \<and>
     \<not> nonempty_string (jsget merged ''ip2location_usage'') \<and>
     jsget merged ''ipinfo_hosting'' \<noteq> JBool True"
  by (auto simp: extractTypeSourceDetails_def ipqs_detail_def abuseipdb_detail_def ip2location_detail_def
      ipinfo_hosting_detail_def nonempty_string_def contains_premium_def split: jsval.splits if_splits)

text \<open>
  Claim C3, as the code has it. \<^verbatim>\<open>ipType.raw\<close> is \<^verbatim>\<open>unknown\<close> exactly when every collected
  type source normalizes to \<^verbatim>\<open>unknown\<close> (in particular when none was collected);
  \<^verbatim>\<open>ipType.value\<close> is then, and only then, the display label of \<^verbatim>\<open>unknown\<close>, and it is never
  the bare string \<^verbatim>\<open>unknown\<close>; \<^verbatim>\<open>ipType.sources\<close> is the list of all collected type sources,
  those normalizing to \<^verbatim>\<open>unknown\<close> included, so it is empty only when no provider contributed
  a usable type string at all.
\<close>

theorem ipType_unknown_iff:
  "(ipt_raw (summary_ipType merged) = ''unknown'' \<longleftrightarrow>
      (\<forall>d \<in> set (extractTypeSourceDetails merged). normalizedType d = ''unknown'')) \<and>
   (ipt_value (summary_ipType merged) = display_unknown \<longleftrightarrow> ipt_raw (summary_ipType merged) = ''unknown'') \<and>
   ipt_value (summary_ipType merged) \<noteq> ''unknown'' \<and>
   ipt_sources (summary_ipType merged) = extractTypeSourceDetails merged \<and>
   (ipt_sources (summary_ipType merged) = [] \<longleftrightarrow>
      \<not> (nonempty_string (jsget merged ''connection_type'') \<and> \<not> contains_premium (jsget merged ''connection_type'')) \<and>
      \<not> nonempty_string (jsget merged ''usageType'') \<and>
      \<not> nonempty_string (jsget merged ''ip2location_usage'') \<and>
      jsget merged ''ipinfo_hosting'' \<noteq> JBool True)"
proof -
  let ?ds = "extractTypeSourceDetails merged"
  have ne: "\<forall>d \<in> set ?ds. normalizedType d \<noteq> []"
  proof
    fix d assume "d \<in> set ?ds"
    then have "normalizedType d \<in> normalized_types" by (rule extract_normalized_nonempty)
    then show "normalizedType d \<noteq> []" using empty_not_normalized by auto
  qed
  have raw: "voteIpType ?ds = ''unknown'' \<longleftrightarrow> (\<forall>d \<in> set ?ds. normalizedType d = ''unknown'')"
    using ne by (auto simp: voteIpType_unknown_iff)
  have range: "voteIpType ?ds \<in> normalized_types"
  proof (cases "voteIpType ?ds = ''unknown''")
    case True
    then show ?thesis by (simp add: normalized_types_def)
  next
    case False
    then have "tally_votes ?ds [] \<noteq> []"
      by (auto simp: voteIpType_unknown_iff tally_votes_empty_iff)
    moreover have "\<forall>(k, n) \<in> set (tally_votes ?ds []). 0 < n"
      by (rule tally_votes_pos) simp
    ultimately have "fst (max_votes (tally_votes ?ds []) (''unknown'', 0)) \<in> fst ` set (tally_votes ?ds [])"
      by (rule max_votes_first)
    moreover have "fst ` set (tally_votes ?ds []) \<subseteq> normalizedType ` set ?ds"
      using tally_votes_keys_sub [of ?ds "[]"] by simp
    ultimately have "fst (max_votes (tally_votes ?ds []) (''unknown'', 0)) \<in> normalizedType ` set ?ds"
      by auto
    then obtain d where "d \<in> set ?ds"
      and "fst (max_votes (tally_votes ?ds []) (''unknown'', 0)) = normalizedType d"
      by auto
    then have "fst (max_votes (tally_votes ?ds []) (''unknown'', 0)) \<in> normalized_types"
      using extract_normalized_nonempty [of d merged] by simp
    then show ?thesis
      using False by (simp add: voteIpType_def Let_def split: if_splits)
  qed
  have disp: "getDisplayType (voteIpType ?ds) = display_unknown \<longleftrightarrow> voteIpType ?ds = ''unknown''"
    by (rule getDisplayType_unknown_iff [OF range])
  have lit: "getDisplayType (voteIpType ?ds) \<noteq> ''unknown''"
    using range getDisplayType_literal by (auto simp: normalized_types_def)
  show ?thesis
    using raw disp lit extract_empty_iff [of merged]
    by (simp add: summary_ipType_def Let_def)
qed


text \<open>
  Witness for C3 on the residential record: three sources vote \<^verbatim>\<open>residential\<close>, so by the
  theorem neither the raw type nor the display label is the unknown one.
\<close>

theorem ipType_unknown_iff_witness:
  "map normalizedType (extractTypeSourceDetails residential_record) = [''residential'', ''residential'', ''residential''] \<and>
   ipt_raw (summary_ipType residential_record) \<noteq> ''unknown'' \<and>
   ipt_value (summary_ipType residential_record) \<noteq> display_unknown"
proof -
  have ev: "map normalizedType (extractTypeSourceDetails residential_record) =
      [''residential'', ''residential'', ''residential'']"
    by code_simp
  have "\<not> list_all (\<lambda>t. t = ''unknown'') (map normalizedType (extractTypeSourceDetails residential_record))"
    unfolding ev by simp
  then have n: "\<not> (\<forall>d \<in> set (extractTypeSourceDetails residential_record). normalizedType d = ''unknown'')"
    by (simp add: list_all_iff)
  note T = ipType_unknown_iff [of residential_record]
  from T have a: "ipt_raw (summary_ipType residential_record) = ''unknown'' \<longleftrightarrow>
      (\<forall>d \<in> set (extractTypeSourceDetails residential_record). normalizedType d = ''unknown'')"
    by (rule conjunct1)
  from T have b: "ipt_value (summary_ipType residential_record) = display_unknown \<longleftrightarrow>
      ipt_raw (summary_ipType residential_record) = ''unknown''"
    by (rule conjunct1 [OF conjunct2])
  have r: "ipt_raw (summary_ipType residential_record) \<noteq> ''unknown''"
    unfolding a by (rule n)
  have v: "ipt_value (summary_ipType residential_record) \<noteq> display_unknown"
    unfolding b by (rule r)
  from ev r v show ?thesis by (intro conjI)
qed

text \<open>
  Counterexample to C3 as stated: AbuseIPDB reports \<^verbatim>\<open>Reserved\<close>, which normalizes to
  \<^verbatim>\<open>unknown\<close>. No provider contributed a non-unknown type, yet \<^verbatim>\<open>ipType.sources\<close> is not
  empty and \<^verbatim>\<open>ipType.value\<close> is the display label, not \<^verbatim>\<open>unknown\<close>.
\<close>

theorem ipType_unknown_counterexample:
  "map normalizedType (extractTypeSourceDetails reserved_record) = [''unknown''] \<and>
   ipt_value (summary_ipType reserved_record) \<noteq> ''unknown'' \<and>
   ipt_sources (summary_ipType reserved_record) \<noteq> []"
  by code_simp


section \<open>The Premium guard of the IPQS type source\<close>

text \<open>
  Claim C10. When \<^verbatim>\<open>connection_type\<close> is a string containing \<^verbatim>\<open>Premium\<close>, the whole
  \<^verbatim>\<open>ipType\<close> summary (vote winner, label and sources) is the one of the record with
  \<^verbatim>\<open>connection_type\<close> deleted; no source entry is attributed to IPQS; and the AbuseIPDB,
  IP2Location and ipinfo-hosting entries are collected under their own conditions.
\<close>

theorem premium_excluded:
  assumes "jsget merged ''connection_type'' = JStr s" and "includes_str s ''Premium''"
  shows "summary_ipType merged = summary_ipType (merged(''connection_type'' := None)) \<and>
         (\<forall>d \<in> set (ipt_sources (summary_ipType merged)). source d \<noteq> ''IPQS'') \<and>
         ipt_sources (summary_ipType merged) =
           abuseipdb_detail merged @ ip2location_detail merged @ ipinfo_hosting_detail merged \<and>
         (\<forall>u. jsget merged ''usageType'' = JStr u \<and> u \<noteq> [] \<longrightarrow>
            \<lparr>source = ''AbuseIPDB'', rawType = u, normalizedType = normalizeIpType (JStr u)\<rparr>
              \<in> set (ipt_sources (summary_ipType merged))) \<and>
         (\<forall>u. jsget merged ''ip2location_usage'' = JStr u \<and> u \<noteq> [] \<longrightarrow>
            \<lparr>source = ''IP2Location'', rawType = u, normalizedType = normalizeIpType (JStr u)\<rparr>
              \<in> set (ipt_sources (summary_ipType merged))) \<and>
         (jsget merged ''ipinfo_hosting'' = JBool True \<longrightarrow>
            \<lparr>source = ''IPInfo Hosting'', rawType = ''Hosting/Data Center'', normalizedType = ''datacenter''\<rparr>
              \<in> set (ipt_sources (summary_ipType merged)))"
proof -
  let ?m' = "merged(''connection_type'' := None)"
  have ipqs: "ipqs_detail merged = []"
    using assms by (simp add: ipqs_detail_def)
  have ipqs': "ipqs_detail ?m' = []"
    by (simp add: ipqs_detail_def jsget_def)
  have others: "abuseipdb_detail ?m' = abuseipdb_detail merged"
    "ip2location_detail ?m' = ip2location_detail merged"
    "ipinfo_hosting_detail ?m' = ipinfo_hosting_detail merged"
    by (simp_all add: abuseipdb_detail_def ip2location_detail_def ipinfo_hosting_detail_def jsget_def)
  have ex: "extractTypeSourceDetails merged =
      abuseipdb_detail merged @ ip2location_detail merged @ ipinfo_hosting_detail merged"
    by (simp add: extractTypeSourceDetails_def ipqs)
  have ex': "extractTypeSourceDetails ?m' = extractTypeSourceDetails merged"
    by (simp add: extractTypeSourceDetails_def ipqs ipqs' others)
  have src: "ipt_sources (summary_ipType merged) = extractTypeSourceDetails merged"
    by (simp add: summary_ipType_def Let_def)
  have no_ipqs: "\<forall>d \<in> set (extractTypeSourceDetails merged). source d \<noteq> ''IPQS''"
    unfolding ex
    by (auto simp: abuseipdb_detail_def ip2location_detail_def ipinfo_hosting_detail_def
        split: jsval.splits if_splits)
  have mem: "\<forall>u. jsget merged ''usageType'' = JStr u \<and> u \<noteq> [] \<longrightarrow>
            \<lparr>source = ''AbuseIPDB'', rawType = u, normalizedType = normalizeIpType (JStr u)\<rparr>
              \<in> set (extractTypeSourceDetails merged)"
    "\<forall>u. jsget merged ''ip2location_usage'' = JStr u \<and> u \<noteq> [] \<longrightarrow>
            \<lparr>source = ''IP2Location'', rawType = u, normalizedType = normalizeIpType (JStr u)\<rparr>
              \<in> set (extractTypeSourceDetails merged)"
    "jsget merged ''ipinfo_hosting'' = JBool True \<longrightarrow>
            \<lparr>source = ''IPInfo Hosting'', rawType = ''Hosting/Data Center'', normalizedType = ''datacenter''\<rparr>
              \<in> set (extractTypeSourceDetails merged)"
    unfolding ex
    by (simp_all add: abuseipdb_detail_def ip2location_detail_def ipinfo_hosting_detail_def)
  have "summary_ipType merged = summary_ipType ?m'"
    by (simp add: summary_ipType_def ex')
  then show ?thesis
    using no_ipqs mem ex unfolding src by simp
qed


theorem premium_excluded_witness:
  "jsget premium_record ''connection_type'' = JStr ''Premium required.'' \<and>
   includes_str ''Premium required.'' ''Premium'' \<and>
   map source (ipt_sources (summary_ipType premium_record)) = [''AbuseIPDB'', ''IPInfo Hosting''] \<and>
   ipt_raw (summary_ipType premium_record) = ''datacenter''"
proof -
  have h1: "jsget premium_record ''connection_type'' = JStr ''Premium required.''"
    by (simp add: premium_record_def jsget_def)
  have h2: "includes_str ''Premium required.'' ''Premium''"
    by simp
  have a: "abuseipdb_detail premium_record =
      [\<lparr>source = ''AbuseIPDB'', rawType = ''Data Center/Web Hosting/Transit'', normalizedType = ''datacenter''\<rparr>]"
    by code_simp
  have b: "ip2location_detail premium_record = []"
    by code_simp
  have c: "ipinfo_hosting_detail premium_record =
      [\<lparr>source = ''IPInfo Hosting'', rawType = ''Hosting/Data Center'', normalizedType = ''datacenter''\<rparr>]"
    by code_simp
  have d: "ipt_raw (summary_ipType (premium_record(''connection_type'' := None))) = ''datacenter''"
    by code_simp
  note T = premium_excluded [OF h1 h2]
  from T have e: "summary_ipType premium_record = summary_ipType (premium_record(''connection_type'' := None))"
    by (rule conjunct1)
  from T have s: "ipt_sources (summary_ipType premium_record) =
      abuseipdb_detail premium_record @ ip2location_detail premium_record @ ipinfo_hosting_detail premium_record"
    by (rule conjunct1 [OF conjunct2 [OF conjunct2]])
  have srcs: "map source (ipt_sources (summary_ipType premium_record)) = [''AbuseIPDB'', ''IPInfo Hosting'']"
    unfolding s a b c by simp
  have raw: "ipt_raw (summary_ipType premium_record) = ''datacenter''"
    unfolding e by (rule d)
  from h1 h2 srcs raw show ?thesis by (intro conjI)
qed


section \<open>The native judgment is a trichotomy\<close>

lemma sublist_reason_registry: "sublist r (a @ r @ b)"
  by (auto simp: sublist_def)

lemma sublist_reason_geo: "sublist g (a @ r @ b @ g)"
  using sublist_reason_registry [of g "a @ r @ b" "[]"] by simp

lemma judgment_native:
  "isNative (ip_source_judgment geo registry) = Some True \<Longrightarrow>
     geo \<noteq> [] \<and> geoCountry (ip_source_judgment geo registry) = Some geo \<and>
     registryCountry (ip_source_judgment geo registry) = Some geo"
  by (simp add: ip_source_judgment_def split: if_splits)

lemma judgment_broadcast:
  "isNative (ip_source_judgment geo registry) = Some False \<Longrightarrow>
     \<exists>r. geo \<noteq> [] \<and> r \<noteq> [] \<and> geo \<noteq> r \<and> geoCountry (ip_source_judgment geo registry) = Some geo \<and>
         registryCountry (ip_source_judgment geo registry) = Some r \<and>
         reason (ip_source_judgment geo registry) = reason_registry_prefix @ r @ reason_geo_infix @ geo"
  by (cases registry) (auto simp: ip_source_judgment_def truthy_str_def split: if_splits)

lemma judgment_undetermined:
  "isNative (ip_source_judgment geo registry) = None \<Longrightarrow>
     geoCountry (ip_source_judgment geo registry) = None \<or>
     registryCountry (ip_source_judgment geo registry) = None"
  by (simp add: ip_source_judgment_def split: if_splits)

lemma buildIpSourceInfo_Inr:
  "buildIpSourceInfo merged = Inr info \<Longrightarrow>
     \<exists>g. info = ip_source_judgment g (getRegisteredCountryFromMerged merged)"
  by (auto simp: buildIpSourceInfo_def split: jsval.splits)

text \<open>
  Claim C7. \<^verbatim>\<open>buildIpSourceInfo\<close> returns a judgment exactly when the first truthy
  geolocation value is a string (or none is truthy); and every judgment it returns satisfies the
  trichotomy: native means both countries present and equal, not native means both present and
  different with a reason string that contains both, undetermined means one of them is \<^verbatim>\<open>null\<close>.
\<close>

theorem ipSource_trichotomy:
  "((\<exists>info. buildIpSourceInfo merged = Inr info) \<longleftrightarrow>
      (\<not> truthy (geo_candidate merged) \<or> (\<exists>s. geo_candidate merged = JStr s))) \<and>
   (\<forall>info. buildIpSourceInfo merged = Inr info \<longrightarrow>
      (isNative info = Some True \<longrightarrow>
         (\<exists>c. c \<noteq> [] \<and> geoCountry info = Some c \<and> registryCountry info = Some c)) \<and>
      (isNative info = Some False \<longrightarrow>
         (\<exists>g r. g \<noteq> [] \<and> r \<noteq> [] \<and> g \<noteq> r \<and> geoCountry info = Some g \<and> registryCountry info = Some r \<and>
                sublist r (reason info) \<and> sublist g (reason info))) \<and>
      (isNative info = None \<longrightarrow> geoCountry info = None \<or> registryCountry info = None))"
proof (intro conjI allI impI)
  show "(\<exists>info. buildIpSourceInfo merged = Inr info) \<longleftrightarrow>
      (\<not> truthy (geo_candidate merged) \<or> (\<exists>s. geo_candidate merged = JStr s))"
    by (cases "geo_candidate merged") (simp_all add: buildIpSourceInfo_def js_or_def)
next
  fix info
  assume r: "buildIpSourceInfo merged = Inr info" and n: "isNative info = Some True"
  from r obtain g where info: "info = ip_source_judgment g (getRegisteredCountryFromMerged merged)"
    using buildIpSourceInfo_Inr by blast
  from judgment_native [of g "getRegisteredCountryFromMerged merged"] n
  have "g \<noteq> [] \<and> geoCountry info = Some g \<and> registryCountry info = Some g"
    unfolding info by simp
  then show "\<exists>c. c \<noteq> [] \<and> geoCountry info = Some c \<and> registryCountry info = Some c" ..
next
  fix info
  assume r: "buildIpSourceInfo merged = Inr info" and n: "isNative info = Some False"
  from r obtain g where info: "info = ip_source_judgment g (getRegisteredCountryFromMerged merged)"
    using buildIpSourceInfo_Inr by blast
  from judgment_broadcast [of g "getRegisteredCountryFromMerged merged"] n
  obtain rg where *: "g \<noteq> []" "rg \<noteq> []" "g \<noteq> rg" "geoCountry info = Some g"
    "registryCountry info = Some rg" "reason info = reason_registry_prefix @ rg @ reason_geo_infix @ g"
    unfolding info by auto
  have "sublist rg (reason info)" "sublist g (reason info)"
    unfolding *(6) by (rule sublist_reason_registry, rule sublist_reason_geo)
  with * show "\<exists>g r. g \<noteq> [] \<and> r \<noteq> [] \<and> g \<noteq> r \<and> geoCountry info = Some g \<and> registryCountry info = Some r \<and>
                sublist r (reason info) \<and> sublist g (reason info)"
    by blast
next
  fix info
  assume r: "buildIpSourceInfo merged = Inr info" and n: "isNative info = None"
  from r obtain g where info: "info = ip_source_judgment g (getRegisteredCountryFromMerged merged)"
    using buildIpSourceInfo_Inr by blast
  from judgment_undetermined [of g "getRegisteredCountryFromMerged merged"] n
  show "geoCountry info = None \<or> registryCountry info = None"
    unfolding info by simp
qed

text \<open>
  Witness for C7: the residential record is registered in DE and geolocated in US; the
  judgment is "not native" and, by the theorem, its reason names both countries.
\<close>

theorem ipSource_trichotomy_witness:
  "buildIpSourceInfo residential_record =
     Inr \<lparr>geoCountry = Some ''US'', registryCountry = Some ''DE'', isNative = Some False,
          reason = reason_registry_prefix @ ''DE'' @ reason_geo_infix @ ''US''\<rparr> \<and>
   sublist ''DE'' (reason_registry_prefix @ ''DE'' @ reason_geo_infix @ ''US'') \<and>
   sublist ''US'' (reason_registry_prefix @ ''DE'' @ reason_geo_infix @ ''US'')"
proof -
  let ?info = "\<lparr>geoCountry = Some ''US'', registryCountry = Some ''DE'', isNative = Some False,
          reason = reason_registry_prefix @ ''DE'' @ reason_geo_infix @ ''US''\<rparr>"
  have ev: "buildIpSourceInfo residential_record = Inr ?info"
    by code_simp
  have nat: "isNative ?info = Some False"
    by simp
  from ipSource_trichotomy [of residential_record] ev
  have "isNative ?info = Some False \<longrightarrow>
         (\<exists>g r. g \<noteq> [] \<and> r \<noteq> [] \<and> g \<noteq> r \<and> geoCountry ?info = Some g \<and> registryCountry ?info = Some r \<and>
                sublist r (reason ?info) \<and> sublist g (reason ?info))"
    by blast
  with nat obtain g r where "geoCountry ?info = Some g" "registryCountry ?info = Some r"
    "sublist r (reason ?info)" "sublist g (reason ?info)"
    by blast
  then have "sublist ''DE'' (reason ?info)" "sublist ''US'' (reason ?info)"
    by simp_all
  then show ?thesis
    using ev by simp
qed


section \<open>Round-robin key selection\<close>

lemmas probe_keys_unfold = probe_keys.simps
declare probe_keys.simps [simp del]

lemma key_available_cursor [simp]:
  "key_available now (m\<lparr>currentIndex := c\<rparr>) key = key_available now m key"
  by (simp add: key_available_def split: option.splits)

lemma wf_manager_cursor:
  "wf_manager m \<Longrightarrow> keys m \<noteq> [] \<Longrightarrow> wf_manager (m\<lparr>currentIndex := (currentIndex m + 1) mod length (keys m)\<rparr>)"
  by (simp add: wf_manager_def)

lemma probe_keys_total:
  "wf_manager m \<Longrightarrow> keys m \<noteq> [] \<Longrightarrow> \<exists>r m'. probe_keys now attempts m = Inr (r, m')"
proof (induction now attempts m rule: probe_keys.induct)
  case (1 now attempts m)
  show ?case
  proof (cases "attempts < length (keys m)")
    case False
    then show ?thesis by (simp add: probe_keys_unfold [of now attempts m])
  next
    case True
    from "1.prems" have c: "currentIndex m < length (keys m)"
      by (simp add: wf_manager_def)
    then have "keys m ! currentIndex m \<in> set (keys m)" by simp
    with "1.prems" have "keyStates m (keys m ! currentIndex m) \<noteq> None"
      by (simp add: wf_manager_def list_all_iff)
    then obtain state where st: "keyStates m (keys m ! currentIndex m) = Some state"
      by auto
    let ?m1 = "m\<lparr>currentIndex := (currentIndex m + 1) mod length (keys m)\<rparr>"
    show ?thesis
    proof (cases "isHealthy state \<or> cooldown_expired now (cooldownMs m) state")
      case True
      with \<open>attempts < length (keys m)\<close> c st show ?thesis
        by (auto simp: probe_keys_unfold [of now attempts m] Let_def)
    next
      case False
      have "\<exists>r m'. probe_keys now (attempts + 1) ?m1 = Inr (r, m')"
        using "1.IH" [OF True c st refl refl] False wf_manager_cursor [OF "1.prems"] "1.prems"(2)
        by simp
      with False True c st show ?thesis
        by (simp add: probe_keys_unfold [of now attempts m] Let_def)
    qed
  qed
qed

lemma cursor_shift: "(Suc c mod n + i) mod n = Suc (c + i) mod (n::nat)"
  by (simp add: mod_add_left_eq)

lemma probe_keys_Some:
  "probe_keys now attempts m = Inr (Some key, m') \<Longrightarrow>
     \<exists>j. attempts + j < length (keys m) \<and>
         key = keys m ! ((currentIndex m + j) mod length (keys m)) \<and>
         key_available now m key \<and>
         (\<forall>i<j. \<not> key_available now m (keys m ! ((currentIndex m + i) mod length (keys m)))) \<and>
         currentIndex m' = (currentIndex m + j + 1) mod length (keys m) \<and>
         keys m' = keys m \<and> cooldownMs m' = cooldownMs m \<and>
         (\<exists>state. keyStates m' key = Some state \<and> isHealthy state) \<and>
         (\<forall>other. other \<noteq> key \<longrightarrow> keyStates m' other = keyStates m other)"
proof (induction now attempts m rule: probe_keys.induct)
  case (1 now attempts m)
  let ?n = "length (keys m)"
  let ?c = "currentIndex m"
  from "1.prems" have a: "attempts < ?n"
    by (simp add: probe_keys_unfold [of now attempts m] split: if_splits)
  from "1.prems" a have c: "?c < ?n"
    by (simp add: probe_keys_unfold [of now attempts m] split: if_splits)
  from "1.prems" a c obtain state where st: "keyStates m (keys m ! ?c) = Some state"
    by (auto simp: probe_keys_unfold [of now attempts m] split: option.splits)
  let ?m1 = "m\<lparr>currentIndex := (?c + 1) mod ?n\<rparr>"
  show ?case
  proof (cases "isHealthy state \<or> cooldown_expired now (cooldownMs m) state")
    case True
    have k: "key = keys m ! ?c"
      using "1.prems" a c st True
      by (auto simp: probe_keys_unfold [of now attempts m] Let_def split: if_splits)
    have m': "currentIndex m' = (?c + 1) mod ?n \<and> keys m' = keys m \<and> cooldownMs m' = cooldownMs m \<and>
        (\<exists>state. keyStates m' key = Some state \<and> isHealthy state) \<and>
        (\<forall>other. other \<noteq> key \<longrightarrow> keyStates m' other = keyStates m other)"
    proof (cases "isHealthy state")
      case True
      with "1.prems" a c st have "m' = ?m1"
        by (simp add: probe_keys_unfold [of now attempts m] Let_def)
      with True st k show ?thesis by simp
    next
      case False
      with True "1.prems" a c st
      have "m' = ?m1\<lparr>keyStates := (keyStates ?m1)(key \<mapsto> state\<lparr>isHealthy := True, failureCount := 0\<rparr>)\<rparr>"
        by (simp add: probe_keys_unfold [of now attempts m] Let_def k)
      then show ?thesis by simp
    qed
    have av: "key_available now m key"
      using True st k by (simp add: key_available_def)
    have "attempts + 0 < ?n \<and> key = keys m ! ((?c + 0) mod ?n) \<and> key_available now m key \<and>
         (\<forall>i<0. \<not> key_available now m (keys m ! ((?c + i) mod ?n))) \<and>
         currentIndex m' = (?c + 0 + 1) mod ?n \<and>
         keys m' = keys m \<and> cooldownMs m' = cooldownMs m \<and>
         (\<exists>state. keyStates m' key = Some state \<and> isHealthy state) \<and>
         (\<forall>other. other \<noteq> key \<longrightarrow> keyStates m' other = keyStates m other)"
      using a c k av m' by simp
    then show ?thesis by blast
  next
    case False
    with "1.prems" a c st have rec: "probe_keys now (attempts + 1) ?m1 = Inr (Some key, m')"
      by (simp add: probe_keys_unfold [of now attempts m] Let_def)
    from "1.IH" [OF a c st refl refl _ _ rec] False
    obtain j where j: "attempts + 1 + j < ?n"
      "key = keys m ! (((?c + 1) mod ?n + j) mod ?n)"
      "key_available now m key"
      "\<forall>i<j. \<not> key_available now m (keys m ! (((?c + 1) mod ?n + i) mod ?n))"
      "currentIndex m' = ((?c + 1) mod ?n + j + 1) mod ?n"
      "keys m' = keys m" "cooldownMs m' = cooldownMs m"
      "\<exists>state. keyStates m' key = Some state \<and> isHealthy state"
      "\<forall>other. other \<noteq> key \<longrightarrow> keyStates m' other = keyStates m other"
      by auto
    have n0: "0 < ?n" using a by arith
    have first: "\<not> key_available now m (keys m ! ((?c + 0) mod ?n))"
      using False st c by (simp add: key_available_def)
    have before: "\<forall>i<Suc j. \<not> key_available now m (keys m ! ((?c + i) mod ?n))"
    proof (intro allI impI)
      fix i assume "i < Suc j"
      show "\<not> key_available now m (keys m ! ((?c + i) mod ?n))"
      proof (cases i)
        case 0
        with first show ?thesis by simp
      next
        case (Suc i')
        with \<open>i < Suc j\<close> have "i' < j" by simp
        with j(4) have "\<not> key_available now m (keys m ! (((?c + 1) mod ?n + i') mod ?n))" by simp
        then show ?thesis
          by (simp add: Suc cursor_shift)
      qed
    qed
    have cur: "currentIndex m' = (?c + Suc j + 1) mod ?n"
      using j(5) cursor_shift [of ?c ?n "j + 1"] by simp
    have "attempts + Suc j < ?n \<and> key = keys m ! ((?c + Suc j) mod ?n) \<and> key_available now m key \<and>
         (\<forall>i<Suc j. \<not> key_available now m (keys m ! ((?c + i) mod ?n))) \<and>
         currentIndex m' = (?c + Suc j + 1) mod ?n \<and>
         keys m' = keys m \<and> cooldownMs m' = cooldownMs m \<and>
         (\<exists>state. keyStates m' key = Some state \<and> isHealthy state) \<and>
         (\<forall>other. other \<noteq> key \<longrightarrow> keyStates m' other = keyStates m other)"
      using j(1,3,6,7,8,9) before cur j(2) by (simp add: cursor_shift)
    then show ?thesis by blast
  qed
qed


lemma probe_keys_None:
  "probe_keys now attempts m = Inr (None, m') \<Longrightarrow> currentIndex m < length (keys m) \<Longrightarrow>
     (\<forall>i. attempts + i < length (keys m) \<longrightarrow>
          \<not> key_available now m (keys m ! ((currentIndex m + i) mod length (keys m)))) \<and>
     keys m' = keys m \<and> cooldownMs m' = cooldownMs m \<and> keyStates m' = keyStates m \<and>
     currentIndex m' = (currentIndex m + (length (keys m) - attempts)) mod length (keys m)"
proof (induction now attempts m rule: probe_keys.induct)
  case (1 now attempts m)
  let ?n = "length (keys m)"
  let ?c = "currentIndex m"
  note c = "1.prems"(2)
  show ?case
  proof (cases "attempts < ?n")
    case False
    with "1.prems" have "m' = m"
      by (simp add: probe_keys_unfold [of now attempts m])
    with False c show ?thesis by simp
  next
    case True
    from "1.prems" True c obtain state where st: "keyStates m (keys m ! ?c) = Some state"
      by (auto simp: probe_keys_unfold [of now attempts m] split: option.splits)
    let ?m1 = "m\<lparr>currentIndex := (?c + 1) mod ?n\<rparr>"
    from "1.prems" True c st have un: "\<not> isHealthy state" "\<not> cooldown_expired now (cooldownMs m) state"
      by (auto simp: probe_keys_unfold [of now attempts m] Let_def split: if_splits)
    with "1.prems" True c st have rec: "probe_keys now (attempts + 1) ?m1 = Inr (None, m')"
      by (simp add: probe_keys_unfold [of now attempts m] Let_def)
    have "0 < ?n" using c by arith
    then have c1: "currentIndex ?m1 < length (keys ?m1)"
      by simp
    from "1.IH" [OF True c st refl refl _ _ rec c1] un
    have ih: "\<forall>i. attempts + 1 + i < ?n \<longrightarrow>
          \<not> key_available now m (keys m ! ((Suc ?c mod ?n + i) mod ?n))"
      "keys m' = keys m" "cooldownMs m' = cooldownMs m" "keyStates m' = keyStates m"
      "currentIndex m' = (Suc ?c mod ?n + (?n - (attempts + 1))) mod ?n"
      by simp_all
    have first: "\<not> key_available now m (keys m ! ((?c + 0) mod ?n))"
      using un st c by (simp add: key_available_def)
    have all: "\<forall>i. attempts + i < ?n \<longrightarrow> \<not> key_available now m (keys m ! ((?c + i) mod ?n))"
    proof (intro allI impI)
      fix i assume i: "attempts + i < ?n"
      show "\<not> key_available now m (keys m ! ((?c + i) mod ?n))"
      proof (cases i)
        case 0
        with first show ?thesis by simp
      next
        case (Suc i')
        with i have "attempts + 1 + i' < ?n" by simp
        with ih(1) have "\<not> key_available now m (keys m ! ((Suc ?c mod ?n + i') mod ?n))" by blast
        then show ?thesis by (simp add: Suc cursor_shift)
      qed
    qed
    have e: "?n - attempts = Suc (?n - (attempts + 1))"
      using True by arith
    have "currentIndex m' = Suc (?c + (?n - (attempts + 1))) mod ?n"
      using ih(5) by (simp only: cursor_shift)
    also have "\<dots> = (?c + (?n - attempts)) mod ?n"
      by (simp only: e add_Suc_right)
    finally have cur: "currentIndex m' = (?c + (?n - attempts)) mod ?n" .
    from all ih(2,3,4) cur show ?thesis by simp
  qed
qed

lemma cleanup_state_available:
  "(isHealthy (cleanup_state now cd state) \<or> cooldown_expired now cd (cleanup_state now cd state)) \<longleftrightarrow>
   (isHealthy state \<or> cooldown_expired now cd state)"
  by (auto simp: cleanup_state_def cooldown_expired_def split: option.splits if_splits)

lemma key_available_cleanup [simp]:
  "key_available now (cleanupExpiredCooldowns now m) key = key_available now m key"
  using cleanup_state_available
  by (cases "keyStates m key") (simp_all add: key_available_def cleanupExpiredCooldowns_def)

lemma wf_manager_cleanup: "wf_manager m \<Longrightarrow> wf_manager (cleanupExpiredCooldowns now m)"
  by (simp add: wf_manager_def cleanupExpiredCooldowns_def list_all_iff)

lemma cleanup_fields [simp]:
  "keys (cleanupExpiredCooldowns now m) = keys m"
  "currentIndex (cleanupExpiredCooldowns now m) = currentIndex m"
  "cooldownMs (cleanupExpiredCooldowns now m) = cooldownMs m"
  by (simp_all add: cleanupExpiredCooldowns_def)

lemma full_round:
  assumes c: "c < n" and p: "p < (n::nat)"
  shows "\<exists>i<n. (c + i) mod n = p"
proof (intro exI conjI)
  show "(p + n - c) mod n < n" using p by simp
  have "(c + (p + n - c) mod n) mod n = (c + (p + n - c)) mod n"
    by (simp add: mod_add_right_eq)
  also have "c + (p + n - c) = p + n" using c by simp
  finally show "(c + (p + n - c) mod n) mod n = p" using p by simp
qed

text \<open>
  Claim C2, as the code has it. An empty pool gives \<^verbatim>\<open>null\<close>. A pool of exactly one key hands
  that key out unconditionally: no sweep, no health test, no cursor movement. A pool of two or
  more keys sweeps, then probes from the cursor: the key returned is the first one, in cursor
  order, that was healthy or past its cooldown when the call was made; it is healthy afterwards;
  the cursor has advanced by one (modulo the pool size) for each probe; and \<^verbatim>\<open>null\<close> is
  returned exactly when no key is available, after a full round that leaves the cursor where it
  was.
\<close>

theorem getNextKey_round_robin:
  "(length (keys m) = 0 \<longrightarrow> getNextKey now m = Inr (None, m)) \<and>
   (length (keys m) = 1 \<longrightarrow> getNextKey now m = Inr (Some (keys m ! 0), m)) \<and>
   (wf_manager m \<and> 2 \<le> length (keys m) \<longrightarrow>
      (\<exists>r m'. getNextKey now m = Inr (r, m') \<and> keys m' = keys m \<and>
         (case r of
            Some key \<Rightarrow>
              (\<exists>j<length (keys m).
                  key = keys m ! ((currentIndex m + j) mod length (keys m)) \<and>
                  (\<forall>i<j. \<not> key_available now m (keys m ! ((currentIndex m + i) mod length (keys m)))) \<and>
                  currentIndex m' = (currentIndex m + j + 1) mod length (keys m)) \<and>
              key_available now m key \<and>
              (\<exists>state. keyStates m' key = Some state \<and> isHealthy state)
          | None \<Rightarrow>
              (\<forall>key \<in> set (keys m). \<not> key_available now m key) \<and>
              currentIndex m' = currentIndex m)))"
proof (intro conjI impI)
  show "getNextKey now m = Inr (None, m)" if "length (keys m) = 0"
    using that by (simp add: getNextKey_def)
  show "getNextKey now m = Inr (Some (keys m ! 0), m)" if "length (keys m) = 1"
    using that by (simp add: getNextKey_def)
next
  assume asm: "wf_manager m \<and> 2 \<le> length (keys m)"
  let ?m0 = "cleanupExpiredCooldowns now m"
  let ?n = "length (keys m)"
  let ?c = "currentIndex m"
  from asm have ne: "keys m \<noteq> []" and c: "?c < ?n"
    by (auto simp: wf_manager_def)
  from asm have "length (keys m) \<noteq> 0" "length (keys m) \<noteq> 1"
    by arith+
  then have g: "getNextKey now m = probe_keys now 0 ?m0"
    by (simp only: getNextKey_def if_False)
  from probe_keys_total [OF wf_manager_cleanup, of m now now 0] asm ne
  obtain r m' where pr: "probe_keys now 0 ?m0 = Inr (r, m')"
    by auto
  show "\<exists>r m'. getNextKey now m = Inr (r, m') \<and> keys m' = keys m \<and>
         (case r of
            Some key \<Rightarrow>
              (\<exists>j<?n. key = keys m ! ((?c + j) mod ?n) \<and>
                  (\<forall>i<j. \<not> key_available now m (keys m ! ((?c + i) mod ?n))) \<and>
                  currentIndex m' = (?c + j + 1) mod ?n) \<and>
              key_available now m key \<and>
              (\<exists>state. keyStates m' key = Some state \<and> isHealthy state)
          | None \<Rightarrow>
              (\<forall>key \<in> set (keys m). \<not> key_available now m key) \<and> currentIndex m' = ?c)"
  proof (cases r)
    case None
    from probe_keys_None [OF pr [unfolded None]] c
    have un: "\<forall>i<?n. \<not> key_available now m (keys m ! ((?c + i) mod ?n))"
      and k: "keys m' = keys m" and cur: "currentIndex m' = ?c"
      by simp_all
    have "\<forall>key \<in> set (keys m). \<not> key_available now m key"
    proof
      fix key assume "key \<in> set (keys m)"
      then obtain p where p: "p < ?n" "key = keys m ! p"
        by (auto simp: in_set_conv_nth)
      from full_round [OF c p(1)] obtain i where "i < ?n" "(?c + i) mod ?n = p" by blast
      with un p(2) show "\<not> key_available now m key" by auto
    qed
    with g pr None k cur show ?thesis by simp
  next
    case (Some key)
    from probe_keys_Some [OF pr [unfolded Some]]
    obtain j where j: "j < ?n" "key = keys m ! ((?c + j) mod ?n)" "key_available now m key"
      "\<forall>i<j. \<not> key_available now m (keys m ! ((?c + i) mod ?n))"
      "currentIndex m' = (?c + j + 1) mod ?n" "keys m' = keys m"
      "\<exists>state. keyStates m' key = Some state \<and> isHealthy state"
      by auto
    from j(1,2,4,5) have "\<exists>j<?n. key = keys m ! ((?c + j) mod ?n) \<and>
                  (\<forall>i<j. \<not> key_available now m (keys m ! ((?c + i) mod ?n))) \<and>
                  currentIndex m' = (?c + j + 1) mod ?n"
      by blast
    with g pr Some j(3,6,7) show ?thesis by simp
  qed
qed

text \<open>
  Counterexample to C2 as stated: the only key of the pool was marked unhealthy a second ago
  (cooldown five minutes), and \<^verbatim>\<open>getNextKey\<close> returns it all the same, unhealthy and unrestored.
\<close>

theorem getNextKey_single_key_counterexample:
  "getNextKey 2000 stuck_pool = Inr (Some ''K1'', stuck_pool) \<and>
   key_available 2000 stuck_pool ''K1'' = False \<and>
   map_option isHealthy (keyStates stuck_pool ''K1'') = Some False"
  by (simp add: getNextKey_def stuck_pool_def key_available_def cooldown_expired_def DEFAULT_COOLDOWN_MS_def)


text \<open>
  Witness for C2: three keys, the first in cooldown, the cursor on it. The call skips \<^verbatim>\<open>A\<close>,
  returns \<^verbatim>\<open>B\<close> and leaves the cursor on the third key.
\<close>

theorem getNextKey_round_robin_witness:
  "wf_manager abc_pool \<and> 2 \<le> length (keys abc_pool) \<and>
   map_sum id (\<lambda>(r, m'). (r, currentIndex m')) (getNextKey 61000 abc_pool) = Inr (Some ''B'', 2) \<and>
   key_available 61000 abc_pool ''A'' = False \<and>
   key_available 61000 abc_pool ''B''"
proof -
  have w: "wf_manager abc_pool"
    by (simp add: wf_manager_def abc_pool_def)
  have l: "2 \<le> length (keys abc_pool)"
    by (simp add: abc_pool_def)
  have ev: "map_sum id (\<lambda>(r, m'). (r, currentIndex m')) (getNextKey 61000 abc_pool) = Inr (Some ''B'', 2)"
    by code_simp
  have a: "key_available 61000 abc_pool ''A'' = False"
    by (simp add: key_available_def abc_pool_def cooldown_expired_def DEFAULT_COOLDOWN_MS_def)
  from getNextKey_round_robin [of abc_pool 61000] w l
  obtain r m' where g: "getNextKey 61000 abc_pool = Inr (r, m')"
    and c: "case r of
            Some key \<Rightarrow>
              (\<exists>j<length (keys abc_pool).
                  key = keys abc_pool ! ((currentIndex abc_pool + j) mod length (keys abc_pool)) \<and>
                  (\<forall>i<j. \<not> key_available 61000 abc_pool
                      (keys abc_pool ! ((currentIndex abc_pool + i) mod length (keys abc_pool)))) \<and>
                  currentIndex m' = (currentIndex abc_pool + j + 1) mod length (keys abc_pool)) \<and>
              key_available 61000 abc_pool key \<and>
              (\<exists>state. keyStates m' key = Some state \<and> isHealthy state)
          | None \<Rightarrow>
              (\<forall>key \<in> set (keys abc_pool). \<not> key_available 61000 abc_pool key) \<and>
              currentIndex m' = currentIndex abc_pool"
    by blast
  from ev g have "r = Some ''B''" by simp
  with c have "key_available 61000 abc_pool ''B''" by simp
  with w l ev a show ?thesis by (intro conjI)
qed


section \<open>The batch streams\<close>


































section \<open>Classifying key-related failures\<close>

lemma list_ex_includes: "list_ex (\<lambda>p. includes_str s p) ps \<longleftrightarrow> (\<exists>p \<in> set ps. sublist p s)"
  by (simp add: list_ex_iff includes_str_sublist)

text \<open>
  Claim C6, with the list the code has. Whatever the engine's lower-casing is,
  \<^verbatim>\<open>isKeyRelatedError\<close> is true exactly when the status is 401, 403 or 429, or the lower-cased
  text of the response (the message of an \<^verbatim>\<open>Error\<close>, the JSON text of any other value) contains
  one of the twelve patterns of \<^verbatim>\<open>errorMessages\<close>; the second pattern is \<^verbatim>\<open>quota exceeded\<close>,
  not \<^verbatim>\<open>quota\<close>.
\<close>

theorem isKeyRelatedError_iff:
  "isKeyRelatedError lower status response \<longleftrightarrow>
     status \<in> {401, 403, 429} \<or>
     (\<exists>p \<in> set [''rate limit'', ''quota exceeded'', ''limit exceeded'', ''request quota'', ''invalid key'',
                  ''invalid api key'', ''unauthorized'', ''too many requests'', ''daily limit'',
                  ''monthly limit'', ''exceeded'', ''throttl''].
        sublist p (lower (response_text response)))"
proof -
  have "List.member [401, 403, 429] status \<longleftrightarrow> status \<in> {401, 403, 429::nat}"
    by simp
  then show ?thesis
    unfolding isKeyRelatedError_def Let_def list_ex_includes errorMessages_def
    by (simp only: if_True if_False split: if_splits) auto
qed

text \<open>
  Counterexample to C6 as stated: status 200 and a message that contains \<^verbatim>\<open>quota\<close> but none
  of the patterns of the code. The claim says true, the code answers false.
\<close>

theorem isKeyRelatedError_quota_counterexample:
  "includes_str (toLowerCase ''Your quota is used up'') ''quota'' \<and>
   isKeyRelatedError toLowerCase 200 (ErrorObject ''Your quota is used up'') = False"
  by code_simp

text \<open>
  Witness for C6. A 200 response whose message says \<^verbatim>\<open>Monthly Limit reached\<close> is key-related
  by its text, a 429 by its status alone; a 500 with an unrelated body is not. With a
  lower-casing that maps the Kelvin sign (the bytes E2 84 AA) to \<^verbatim>\<open>k\<close>, as the engine's does,
  the message \<^verbatim>\<open>INVALID KEY\<close> spelt with that sign is key-related.
\<close>

theorem isKeyRelatedError_iff_witness:
  "isKeyRelatedError toLowerCase 200 (ErrorObject ''Monthly Limit reached'') \<and>
   isKeyRelatedError toLowerCase 429 (Serialized ''{}'') \<and>
   \<not> isKeyRelatedError toLowerCase 500 (Serialized ''{\"error\":\"Internal\"}'') \<and>
   isKeyRelatedError
     (\<lambda>s. if s = ''INVALID '' @ [CHR 0xE2, CHR 0x84, CHR 0xAA] @ ''EY'' then ''invalid key'' else toLowerCase s)
     200 (ErrorObject (''INVALID '' @ [CHR 0xE2, CHR 0x84, CHR 0xAA] @ ''EY''))"
proof -
  let ?ps = "[''rate limit'', ''quota exceeded'', ''limit exceeded'', ''request quota'', ''invalid key'',
              ''invalid api key'', ''unauthorized'', ''too many requests'', ''daily limit'',
              ''monthly limit'', ''exceeded'', ''throttl'']"
  let ?kelvin = "\<lambda>s. if s = ''INVALID '' @ [CHR 0xE2, CHR 0x84, CHR 0xAA] @ ''EY'' then ''invalid key''
                     else toLowerCase s"
  have "list_ex (\<lambda>p. includes_str (toLowerCase ''Monthly Limit reached'') p) ?ps"
    by code_simp
  then have "\<exists>p \<in> set ?ps. sublist p (toLowerCase (response_text (ErrorObject ''Monthly Limit reached'')))"
    by (simp only: list_ex_includes response_text_def response.case)
  then have a: "isKeyRelatedError toLowerCase 200 (ErrorObject ''Monthly Limit reached'')"
    by (simp only: isKeyRelatedError_iff [of toLowerCase 200 "ErrorObject ''Monthly Limit reached''"] simp_thms)
  have b: "isKeyRelatedError toLowerCase 429 (Serialized ''{}'')"
    by (simp add: isKeyRelatedError_iff [of toLowerCase 429 "Serialized ''{}''"])
  have "\<not> list_ex (\<lambda>p. includes_str (toLowerCase ''{\"error\":\"Internal\"}'') p) ?ps"
    by code_simp
  then have n1: "\<not> (\<exists>p \<in> set ?ps. sublist p (toLowerCase (response_text (Serialized ''{\"error\":\"Internal\"}''))))"
    by (simp only: list_ex_includes response_text_def response.case simp_thms)
  have c: "\<not> isKeyRelatedError toLowerCase 500 (Serialized ''{\"error\":\"Internal\"}'')"
  proof
    assume "isKeyRelatedError toLowerCase 500 (Serialized ''{\"error\":\"Internal\"}'')"
    then have "500 \<in> {401, 403, 429::nat} \<or>
        (\<exists>p \<in> set ?ps. sublist p (toLowerCase (response_text (Serialized ''{\"error\":\"Internal\"}''))))"
      by (simp only: isKeyRelatedError_iff [of toLowerCase 500 "Serialized ''{\"error\":\"Internal\"}''"])
    then show False
    proof (elim disjE)
      assume "500 \<in> {401, 403, 429::nat}"
      then show False by simp
    next
      assume "\<exists>p \<in> set ?ps. sublist p (toLowerCase (response_text (Serialized ''{\"error\":\"Internal\"}'')))"
      with n1 show False by (rule notE)
    qed
  qed
  have "list_ex (\<lambda>p. includes_str ''invalid key'' p) ?ps"
    by code_simp
  then have "\<exists>p \<in> set ?ps. sublist p ''invalid key''"
    by (simp only: list_ex_includes)
  then have "\<exists>p \<in> set ?ps.
      sublist p (?kelvin (response_text (ErrorObject (''INVALID '' @ [CHR 0xE2, CHR 0x84, CHR 0xAA] @ ''EY''))))"
    by (simp only: response_text_def response.case refl if_True)
  then have d: "isKeyRelatedError ?kelvin 200 (ErrorObject (''INVALID '' @ [CHR 0xE2, CHR 0x84, CHR 0xAA] @ ''EY''))"
    by (simp only: isKeyRelatedError_iff [of ?kelvin 200
          "ErrorObject (''INVALID '' @ [CHR 0xE2, CHR 0x84, CHR 0xAA] @ ''EY'')"] simp_thms)
  from a b c d show ?thesis by (intro conjI)
qed


section \<open>Caching of AI analyses\<close>

lemma shouldCache_ai_iff:
  "shouldCache_ai v \<longleftrightarrow>
     (\<exists>obj r. v = Some obj \<and> reasoning obj = JStr r \<and> r \<noteq> AI_UNAVAILABLE \<and> \<not> prefix ''AI Analysis Failed'' r)"
  by (auto simp: shouldCache_ai_def startsWith_prefix split: option.splits jsval.splits)

text \<open>
  Claim C8, at the input where the code leaves it. The LLM endpoint answers without content,
  so \<^verbatim>\<open>analyzeWithLLM\<close> returns an analysis whose reasoning is the empty string. On a miss the
  route stores it under \<^verbatim>\<open>v1:ai:analysis:8.8.8.8\<close>, for the default 900 seconds
  (\<^verbatim>\<open>CACHE_TTL_SECONDS\<close> is unset, \<^verbatim>\<open>parseInt\<close> of the empty string is \<^verbatim>\<open>NaN\<close>): the predicate
  \<^verbatim>\<open>shouldCache\<close> tests that the reasoning is a string, not that it is non-empty. The result of
  a failed call, on the same namespace, is not stored.
\<close>

theorem ai_analysis_empty_stored:
  "map_option reasoning empty_analysis = Some (JStr []) \<and>
   shouldCache_ai empty_analysis \<and>
   ai_cache_key ''v1'' ''8.8.8.8'' = ''v1:ai:analysis:8.8.8.8'' \<and>
   entry_after (ai_analysis_cached (\<lambda>s. NaN) ''v1'' ''8.8.8.8'' None (Inr empty_analysis) (Some Map.empty) no_faults)
     ''v1:ai:analysis:8.8.8.8'' = Some (empty_analysis, Finite 900) \<and>
   entry_after (ai_analysis_cached (\<lambda>s. NaN) ''v1'' ''8.8.8.8'' None
       (Inr (llm_failure ''LLM API error: 500 - down'')) (Some Map.empty) no_faults)
     ''v1:ai:analysis:8.8.8.8'' = None"
  by code_simp


section \<open>Persisting the merged bundle\<close>

lemma collect_settled_filter:
  "collect_settled xs (successful, errors) =
     (successful @ [v. Fulfilled v \<leftarrow> xs, api_status v = StatusSuccess],
      errors @ [v. Fulfilled v \<leftarrow> xs, api_status v \<noteq> StatusSuccess])"
proof (induction xs arbitrary: successful errors)
  case Nil
  then show ?case by simp
next
  case (Cons x xs)
  then show ?case by (cases x) simp_all
qed

lemma getCachedMergedIpData_miss:
  assumes "kv = None \<or> get_throws faults \<or> (\<exists>store. kv = Some store \<and> store (getMergedIpCacheKey ip) = None)"
  shows "getCachedMergedIpData kv faults ip = None"
  using assms by (auto simp: getCachedMergedIpData_def kv_get_def split: option.splits)

lemma setCachedMergedIpData_cases:
  "setCachedMergedIpData kv faults ip entry ttl =
     (case kv of
        None \<Rightarrow> None
      | Some store \<Rightarrow> Some (if put_throws faults then store else store(getMergedIpCacheKey ip \<mapsto> (entry, ttl))))"
  by (simp add: setCachedMergedIpData_def kv_put_def split: option.splits)

lemma getCacheTTL_cases:
  "getCacheTTL parseInt CACHE_TTL_SECONDS =
     (case parseInt (case CACHE_TTL_SECONDS of None \<Rightarrow> [] | Some s \<Rightarrow> s) of
        Finite n \<Rightarrow> if 60 \<le> n then Finite n else Finite 900
      | PlusInfinity \<Rightarrow> PlusInfinity
      | _ \<Rightarrow> Finite 900)"
  by (simp add: getCacheTTL_def split: js_number.splits option.splits)

text \<open>
  Claim C5, as the code has it. On the non-cached path (no namespace is bound, the lookup
  throws, or it finds no entry) the providers run: the second wave only when an ASN is known
  and an ASN-dependent provider is enabled. The result lists the fulfilled successes and the
  fulfilled failures of the waves, in order. What the namespace holds afterwards:
  with no namespace bound, or when the write throws, nothing is written;
  otherwise, if a provider succeeded, the bundle (merged map, successes, failures, ASN, time,
  no negative flag) is stored under the merged key with the configured TTL, which is the
  number \<^verbatim>\<open>parseInt\<close> reads from \<^verbatim>\<open>CACHE_TTL_SECONDS\<close> if that is at least 60 and 900 otherwise;
  otherwise, if a provider failed, an entry with an empty merged map, no successes, the
  failures and \<^verbatim>\<open>isNegativeCache = true\<close> is stored for 60 seconds;
  otherwise nothing is written.
\<close>

theorem cache_persist_rule:
  assumes miss: "kv = None \<or> get_throws faults \<or>
                 (\<exists>store. kv = Some store \<and> store (getMergedIpCacheKey ip) = None)"
    and asn: "detectedAsn = detect_asn asn (mergeResults [v. Fulfilled v \<leftarrow> first_wave, api_status v = StatusSuccess])"
    and waves: "waves = first_wave @ (if truthy detectedAsn \<and> 0 < asnDependentCount then second_wave detectedAsn else [])"
    and succ: "successes = [v. Fulfilled v \<leftarrow> waves, api_status v = StatusSuccess]"
    and fail: "failures = [v. Fulfilled v \<leftarrow> waves, api_status v \<noteq> StatusSuccess]"
    and ttl: "configured =
                (case parseInt (case CACHE_TTL_SECONDS of None \<Rightarrow> [] | Some s \<Rightarrow> s) of
                   Finite n \<Rightarrow> if 60 \<le> n then Finite n else Finite 900
                 | PlusInfinity \<Rightarrow> PlusInfinity
                 | _ \<Rightarrow> Finite 900)"
  shows "checkSingleIpWithCache parseInt ip asn CACHE_TTL_SECONDS kv faults now first_wave second_wave asnDependentCount =
     (\<lparr>res_ip = ip, res_asn = detectedAsn, res_successful = successes, res_errors = failures,
       res_merged = mergeResults successes, partiallyFromCache = False, cachedApiCount = 0,
       totalApiCount = length successes + length failures\<rparr>,
      (case kv of
         None \<Rightarrow> None
       | Some store \<Rightarrow>
           Some (if put_throws faults then store
                 else if successes \<noteq> [] then
                   store(''v1:merged:'' @ ip \<mapsto>
                     (\<lparr>cached_merged = mergeResults successes, cached_successful = successes,
                       cached_errors = failures, cached_asn = detectedAsn, cachedAt = now,
                       isNegativeCache = None\<rparr>,
                      configured))
                 else if failures \<noteq> [] then
                   store(''v1:merged:'' @ ip \<mapsto>
                     (\<lparr>cached_merged = Map.empty, cached_successful = [],
                       cached_errors = failures, cached_asn = detectedAsn, cachedAt = now,
                       isNegativeCache = Some True\<rparr>,
                      Finite 60))
                 else store)))"
proof -
  define s1 where "s1 = [v. Fulfilled v \<leftarrow> first_wave, api_status v = StatusSuccess]"
  define e1 where "e1 = [v. Fulfilled v \<leftarrow> first_wave, api_status v \<noteq> StatusSuccess]"
  have g: "getCachedMergedIpData kv faults ip = None"
    using miss by (rule getCachedMergedIpData_miss)
  have key: "getMergedIpCacheKey ip = ''v1:merged:'' @ ip"
    by (simp add: getMergedIpCacheKey_def CACHE_VERSION_def)
  have c: "getCacheTTL parseInt CACHE_TTL_SECONDS = configured"
    unfolding ttl by (rule getCacheTTL_cases)
  have c1: "collect_settled first_wave ([], []) = (s1, e1)"
    by (simp add: collect_settled_filter s1_def e1_def)
  have d: "detect_asn asn (mergeResults s1) = detectedAsn"
    by (simp add: asn s1_def)
  have c2: "(if truthy detectedAsn \<and> 0 < asnDependentCount
             then collect_settled (second_wave detectedAsn) (s1, e1) else (s1, e1)) = (successes, failures)"
  proof (cases "truthy detectedAsn \<and> 0 < asnDependentCount")
    case True
    then have w: "waves = first_wave @ second_wave detectedAsn"
      unfolding waves by simp
    have "collect_settled (second_wave detectedAsn) (s1, e1) = (successes, failures)"
      by (simp add: collect_settled_filter s1_def e1_def w succ fail)
    with True show ?thesis
      by simp
  next
    case False
    then have w: "waves = first_wave"
      unfolding waves by auto
    have "(s1, e1) = (successes, failures)"
      by (simp add: s1_def e1_def w succ fail)
    with False show ?thesis
      by auto
  qed
  have l: "length successes > 0 \<longleftrightarrow> successes \<noteq> []" "length failures > 0 \<longleftrightarrow> failures \<noteq> []"
    by simp_all
  show ?thesis
    unfolding checkSingleIpWithCache_def g option.case c1 prod.case Let_def d c2 l c
      setCachedMergedIpData_cases key NEGATIVE_CACHE_TTL_SECONDS_def
    by (cases kv) simp_all
qed

text \<open>
  Counterexample to C5 as stated: ipinfo succeeds and IPQS fails, on the non-cached path.
  With no namespace bound (\<^verbatim>\<open>IP_CACHE\<close> is optional) there is nothing to write to; with a
  namespace whose \<^verbatim>\<open>put\<close> throws, the exception is logged and the entry is not there. Both
  aggregations return their result with the success in it.
\<close>

theorem cache_persist_unwritten_counterexample:
  "map api_source (res_successful (fst (checkSingleIpWithCache (\<lambda>s. NaN) ''8.8.8.8'' JUndefined None
       None no_faults 1000 mixed_wave (\<lambda>asn. []) 0))) = [''ipinfo''] \<and>
   map_option snd (merged_entry (snd (checkSingleIpWithCache (\<lambda>s. NaN) ''8.8.8.8'' JUndefined None
       None no_faults 1000 mixed_wave (\<lambda>asn. []) 0)) ''8.8.8.8'') = None \<and>
   map api_source (res_successful (fst (checkSingleIpWithCache (\<lambda>s. NaN) ''8.8.8.8'' JUndefined None
       (Some Map.empty) \<lparr>get_throws = False, put_throws = True\<rparr> 1000 mixed_wave (\<lambda>asn. []) 0))) = [''ipinfo''] \<and>
   map_option snd (merged_entry (snd (checkSingleIpWithCache (\<lambda>s. NaN) ''8.8.8.8'' JUndefined None
       (Some Map.empty) \<lparr>get_throws = False, put_throws = True\<rparr> 1000 mixed_wave (\<lambda>asn. []) 0)) ''8.8.8.8'') = None"
  by code_simp

text \<open>
  Witness for C5 on an empty namespace, with \<^verbatim>\<open>CACHE_TTL_SECONDS\<close> set to \<^verbatim>\<open>300\<close> (which
  \<^verbatim>\<open>parseInt\<close> reads as 300): one success and one failure give a positive entry for 300
  seconds; a lone failure gives a negative entry for 60 seconds.
\<close>

theorem cache_persist_rule_witness:
  "checkSingleIpWithCache (\<lambda>s. if s = ''300'' then Finite 300 else NaN) ''8.8.8.8'' JUndefined (Some ''300'')
       (Some Map.empty) no_faults 1000 mixed_wave (\<lambda>asn. []) 0 =
     (\<lparr>res_ip = ''8.8.8.8'', res_asn = JUndefined, res_successful = [ipinfo_ok], res_errors = [ipqs_failed],
       res_merged = mergeResults [ipinfo_ok], partiallyFromCache = False, cachedApiCount = 0,
       totalApiCount = 2\<rparr>,
      Some [''v1:merged:8.8.8.8'' \<mapsto>
        (\<lparr>cached_merged = mergeResults [ipinfo_ok], cached_successful = [ipinfo_ok],
          cached_errors = [ipqs_failed], cached_asn = JUndefined, cachedAt = 1000,
          isNegativeCache = None\<rparr>,
         Finite 300)]) \<and>
   checkSingleIpWithCache (\<lambda>s. if s = ''300'' then Finite 300 else NaN) ''203.0.113.5'' JUndefined (Some ''300'')
       (Some Map.empty) no_faults 1000 failed_wave (\<lambda>asn. []) 0 =
     (\<lparr>res_ip = ''203.0.113.5'', res_asn = JUndefined, res_successful = [], res_errors = [ipqs_failed],
       res_merged = mergeResults [], partiallyFromCache = False, cachedApiCount = 0,
       totalApiCount = 1\<rparr>,
      Some [''v1:merged:203.0.113.5'' \<mapsto>
        (\<lparr>cached_merged = Map.empty, cached_successful = [],
          cached_errors = [ipqs_failed], cached_asn = JUndefined, cachedAt = 1000,
          isNegativeCache = Some True\<rparr>,
         Finite 60)])"
proof -
  let ?parse = "\<lambda>s. if s = ''300'' then Finite 300 else NaN"
  have miss: "Some Map.empty = None \<or> get_throws no_faults \<or>
      (\<exists>store. Some Map.empty = Some store \<and> store (getMergedIpCacheKey ip) = None)" for ip
    by simp
  have put: "\<not> put_throws no_faults"
    by (simp add: no_faults_def)
  have st: "api_status ipinfo_ok = StatusSuccess" "api_status ipqs_failed \<noteq> StatusSuccess"
    by (simp_all add: ipinfo_ok_def ipqs_failed_def error_result_def)
  have s1: "[v. Fulfilled v \<leftarrow> mixed_wave, api_status v = StatusSuccess] = [ipinfo_ok]"
    and f1: "[v. Fulfilled v \<leftarrow> mixed_wave, api_status v \<noteq> StatusSuccess] = [ipqs_failed]"
    by (simp_all add: mixed_wave_def st)
  have s2: "[v. Fulfilled v \<leftarrow> failed_wave, api_status v = StatusSuccess] = []"
    and f2: "[v. Fulfilled v \<leftarrow> failed_wave, api_status v \<noteq> StatusSuccess] = [ipqs_failed]"
    by (simp_all add: failed_wave_def st)
  have a1: "JUndefined = detect_asn JUndefined (mergeResults [v. Fulfilled v \<leftarrow> mixed_wave, api_status v = StatusSuccess])"
    unfolding s1
    by (simp add: detect_asn_def mergeResults_def ipinfo_ok_def jsget_def js_or_def string_or_number_def)
  have a2: "JUndefined = detect_asn JUndefined (mergeResults [v. Fulfilled v \<leftarrow> failed_wave, api_status v = StatusSuccess])"
    unfolding s2
    by (simp add: detect_asn_def mergeResults_def jsget_def js_or_def string_or_number_def)
  have w1: "mixed_wave = mixed_wave @ (if truthy JUndefined \<and> 0 < (0::nat) then (\<lambda>asn. []) JUndefined else [])"
    and w2: "failed_wave = failed_wave @ (if truthy JUndefined \<and> 0 < (0::nat) then (\<lambda>asn. []) JUndefined else [])"
    by simp_all
  have t: "Finite 300 =
      (case ?parse (case Some ''300'' of None \<Rightarrow> [] | Some s \<Rightarrow> s) of
         Finite n \<Rightarrow> if 60 \<le> n then Finite n else Finite 900
       | PlusInfinity \<Rightarrow> PlusInfinity
       | _ \<Rightarrow> Finite 900)"
    by simp
  have p: "checkSingleIpWithCache ?parse ''8.8.8.8'' JUndefined (Some ''300'')
       (Some Map.empty) no_faults 1000 mixed_wave (\<lambda>asn. []) 0 =
     (\<lparr>res_ip = ''8.8.8.8'', res_asn = JUndefined, res_successful = [ipinfo_ok], res_errors = [ipqs_failed],
       res_merged = mergeResults [ipinfo_ok], partiallyFromCache = False, cachedApiCount = 0,
       totalApiCount = 2\<rparr>,
      Some [''v1:merged:8.8.8.8'' \<mapsto>
        (\<lparr>cached_merged = mergeResults [ipinfo_ok], cached_successful = [ipinfo_ok],
          cached_errors = [ipqs_failed], cached_asn = JUndefined, cachedAt = 1000,
          isNegativeCache = None\<rparr>,
         Finite 300)])"
    using cache_persist_rule [where kv = "Some Map.empty" and faults = no_faults and ip = "''8.8.8.8''"
        and detectedAsn = JUndefined and asn = JUndefined and first_wave = mixed_wave and waves = mixed_wave
        and asnDependentCount = 0 and second_wave = "\<lambda>asn. []" and successes = "[ipinfo_ok]"
        and failures = "[ipqs_failed]" and configured = "Finite 300" and parseInt = ?parse
        and CACHE_TTL_SECONDS = "Some ''300''" and now = 1000,
        OF miss a1 w1 s1 [symmetric] f1 [symmetric] t] put
    by simp
  have n: "checkSingleIpWithCache ?parse ''203.0.113.5'' JUndefined (Some ''300'')
       (Some Map.empty) no_faults 1000 failed_wave (\<lambda>asn. []) 0 =
     (\<lparr>res_ip = ''203.0.113.5'', res_asn = JUndefined, res_successful = [], res_errors = [ipqs_failed],
       res_merged = mergeResults [], partiallyFromCache = False, cachedApiCount = 0,
       totalApiCount = 1\<rparr>,
      Some [''v1:merged:203.0.113.5'' \<mapsto>
        (\<lparr>cached_merged = Map.empty, cached_successful = [],
          cached_errors = [ipqs_failed], cached_asn = JUndefined, cachedAt = 1000,
          isNegativeCache = Some True\<rparr>,
         Finite 60)])"
    using cache_persist_rule [where kv = "Some Map.empty" and faults = no_faults and ip = "''203.0.113.5''"
        and detectedAsn = JUndefined and asn = JUndefined and first_wave = failed_wave and waves = failed_wave
        and asnDependentCount = 0 and second_wave = "\<lambda>asn. []" and successes = "[]"
        and failures = "[ipqs_failed]" and configured = "Finite 300" and parseInt = ?parse
        and CACHE_TTL_SECONDS = "Some ''300''" and now = 1000,
        OF miss a2 w2 s2 [symmetric] f2 [symmetric] t] put
    by simp
  from p n show ?thesis by (intro conjI)
qed


section \<open>Outcome of the keyed provider fetch\<close>


lemma keys_markFailure [simp]: "keys (markFailure now key m) = keys m"
  by (simp add: markFailure_def Let_def split: option.splits)













end
